theory Spec2Isabelle
  imports Complex_Main "HOL-Library.Char_ord" "HOL-Library.List_Lexorder"
    "HOL-Library.Product_Lexorder"
begin

section \<open>The survey table\<close>

text \<open>
  The script \<^verbatim>\<open>screen.py\<close> works on one pandas DataFrame. A cell holds a number,
  a string, or the missing marker \<^verbatim>\<open>np.nan\<close> (the one marker \<^verbatim>\<open>read_csv\<close> produces
  with its default arguments). Numbers are modelled as reals: the rounding of float64 and
  the difference between an int64 and a float64 column are outside this development. A
  table is the list of its columns in header order, each a name with its cells (one per
  row).
\<close>

datatype cell = Num real | Str string | NaN

type_synonym table = "(string \<times> cell list) list"

datatype py_error = FileNotFoundError | KeyError | TypeError | ValueError

definition columns :: "table \<Rightarrow> string list" where
  "columns t = map fst t"

text \<open>\<^verbatim>\<open>name in df.columns\<close>\<close>

definition has_column :: "string \<Rightarrow> table \<Rightarrow> bool" where
  "has_column n t = (n \<in> set (columns t))"

text \<open>\<^verbatim>\<open>df[name]\<close>, used by the script only behind a \<open>has_column\<close> guard.\<close>

definition column :: "table \<Rightarrow> string \<Rightarrow> cell list option" where
  "column t n = map_of t n"

section \<open>Loader (\<^verbatim>\<open>load_data\<close>, lines 16-38)\<close>

text \<open>The \<^verbatim>\<open>columns=\<close> dictionary of \<^verbatim>\<open>df.rename\<close>, lines 20-36, in source order.\<close>

definition column_names :: "(string \<times> string) list" where
  "column_names =
   [(''What is your age?'', ''Age''),
    (''What is your gender?'', ''Gender''),
    (''What is your education level?'', ''Education''),
    (''On an average weekday, how many hours do you spend looking at screens (computers, smartphones, tablets, TVs, etc.) for non-academic purposes (e.g., entertainment, social media, gaming)?'', ''ST_Weekday''),
    (''On an average weekend day, how many hours do you spend looking at screens for non-academic purposes?'', ''ST_Weekend''),
    (''Which of the following activities do you engage in on screens during your leisure time?'', ''Leisure_ST_Act''),
    (''How often do you engage in this activity?'', ''Average_Distraction''),
    (''Do you experience any of the following health issues due to a prolonged screen time?'', ''Health_Effects''),
    (''Are you aware of the negative effects of excessive screen time on health (e.g., eye strain, sleep disturbances, sedentary lifestyle, mental health)?'', ''Health_awarness''),
    (''What devices do you primarily use for leisure screen time?'', ''Devices_Used_In_Leisure''),
    (''On average, how many hours of sleep do you get on a typical weekday night?'', ''Ave_Weekday_Sleep''),
    (''On average, how many hours of sleep do you get on a typical weekend night?'', ''Ave_Weekend_Sleep''),
    (''Do you use any corrective eyewear? (specs, contact lenses, etc)'', ''Eyewear_User''),
    (''Has your screen time affected your face-to-face social interactions with friends and family?'', ''Interaction_Affects''),
    (''Do you actively try to limit your screen time to mitigate these negative effects?'', ''Mitigate_Screen_time'')]"

text \<open>
  \<^verbatim>\<open>df.drop(['Timestamp'], axis=1, inplace=True)\<close>: pandas raises \<^verbatim>\<open>KeyError\<close> when the
  label is not a column.
\<close>

definition drop_column :: "string \<Rightarrow> table \<Rightarrow> py_error + table" where
  "drop_column n t =
     (if has_column n t then Inr (filter (\<lambda>(m, c). m \<noteq> n) t) else Inl KeyError)"

text \<open>
  \<^verbatim>\<open>df.rename(columns=m, inplace=True)\<close>: a header that is a key of \<open>m\<close> is replaced
  by its value; the default \<^verbatim>\<open>errors='ignore'\<close> makes a key with no matching header no
  error.
\<close>

definition rename_label :: "(string \<times> string) list \<Rightarrow> string \<Rightarrow> string" where
  "rename_label m n = (case map_of m n of None \<Rightarrow> n | Some n' \<Rightarrow> n')"

definition rename_columns :: "(string \<times> string) list \<Rightarrow> table \<Rightarrow> table" where
  "rename_columns m t = map (\<lambda>(n, c). (rename_label m n, c)) t"

text \<open>\<^verbatim>\<open>df.replace(np.nan, '0', inplace=True)\<close>\<close>

definition replace_cell :: "cell \<Rightarrow> cell" where
  "replace_cell x = (case x of NaN \<Rightarrow> Str ''0'' | Num v \<Rightarrow> Num v | Str s \<Rightarrow> Str s)"

definition replace_nan :: "table \<Rightarrow> table" where
  "replace_nan t = map (\<lambda>(n, c). (n, map replace_cell c)) t"

text \<open>
  \<open>load_data\<close> takes the outcome of \<^verbatim>\<open>pd.read_csv\<close> (line 18): the parsed table,
  or the error \<^verbatim>\<open>read_csv\<close> raised. Nothing in \<open>load_data\<close> catches an exception.
\<close>

definition load_data :: "py_error + table \<Rightarrow> py_error + table" where
  "load_data csv =
     (case csv of
        Inl e \<Rightarrow> Inl e
      | Inr t0 \<Rightarrow>
          (case drop_column ''Timestamp'' t0 of
             Inl e \<Rightarrow> Inl e
           | Inr t1 \<Rightarrow> Inr (replace_nan (rename_columns column_names t1))))"

section \<open>What the page receives\<close>

text \<open>
  The presentation layer is an output sink: every \<^verbatim>\<open>st.*\<close> call appends one item to
  the page, in call order. A figure is recorded with the data it draws. Library
  summaries whose numbers are not studied here (\<^verbatim>\<open>df.info\<close>, \<^verbatim>\<open>df.describe\<close>,
  \<^verbatim>\<open>corr\<close>) are recorded with the table they were computed from; where such a call
  raises on an empty input, the step that makes it says so. A float that pandas reports
  as \<^verbatim>\<open>nan\<close> is \<open>None\<close>.
\<close>

datatype arg =
    AStr string
  | ANum "real option"
  | ANames "string list"
  | AFrame table
  | ACounts "(string \<times> nat) list"
  | ADescribe table
  | ACorr table

datatype figure =
    Heatmap table
  | Boxplot "cell list"
  | Bar "(cell \<times> real option) list"
  | Scatter "cell list" "cell list"

datatype element =
    Title string
  | Subheader string
  | Write "arg list"
  | Info table
  | Pyplot figure

text \<open>
  The state of a run: the module-level table \<^verbatim>\<open>df\<close>, the page so far, and the
  exception that ended the run, if one did. No statement of the script is inside a
  \<^verbatim>\<open>try\<close>, so a raised exception ends the run where it is raised.
\<close>

record state =
  df :: table
  out :: "element list"
  raised :: "py_error option"

definition emit :: "element \<Rightarrow> state \<Rightarrow> state" where
  "emit x s = s\<lparr>out := out s @ [x]\<rparr>"

definition raise :: "py_error \<Rightarrow> state \<Rightarrow> state" where
  "raise e s = s\<lparr>raised := Some e\<rparr>"

section \<open>Series operations\<close>

text \<open>
  A column that holds a string has dtype \<^verbatim>\<open>object\<close>; on it the arithmetic reductions
  and the ordered comparisons with a number raise \<^verbatim>\<open>TypeError\<close> (pandas 2: a sum of a
  number and a string fails, and a string result is not converted to a number). Missing
  markers are skipped by the reductions (\<^verbatim>\<open>skipna=True\<close>).
\<close>

definition is_numeric :: "cell list \<Rightarrow> bool" where
  "is_numeric c = list_all (\<lambda>x. case x of Str s \<Rightarrow> False | Num v \<Rightarrow> True | NaN \<Rightarrow> True) c"

definition nums :: "cell list \<Rightarrow> real list" where
  "nums c = concat (map (\<lambda>x. case x of Num v \<Rightarrow> [v] | Str s \<Rightarrow> [] | NaN \<Rightarrow> []) c)"

text \<open>\<^verbatim>\<open>Series.mean()\<close>: \<^verbatim>\<open>nan\<close> over no values.\<close>

definition mean :: "real list \<Rightarrow> real option" where
  "mean xs = (if xs = [] then None else Some (sum_list xs / real (length xs)))"

text \<open>\<^verbatim>\<open>Series.min()\<close> and \<^verbatim>\<open>Series.max()\<close>\<close>

definition minimum :: "real list \<Rightarrow> real option" where
  "minimum xs = (case xs of [] \<Rightarrow> None | x # r \<Rightarrow> Some (fold min r x))"

definition maximum :: "real list \<Rightarrow> real option" where
  "maximum xs = (case xs of [] \<Rightarrow> None | x # r \<Rightarrow> Some (fold max r x))"

text \<open>
  \<^verbatim>\<open>Series.var(ddof)\<close> as pandas computes it: the squared deviations from the mean,
  summed and divided by \<open>count - ddof\<close>; \<^verbatim>\<open>nan\<close> when \<open>count \<le> ddof\<close>.
  \<^verbatim>\<open>Series.std()\<close> is its square root, and the call on line 90 passes no \<^verbatim>\<open>ddof\<close>,
  so the default \<open>ddof = 1\<close> applies.
\<close>

definition var :: "nat \<Rightarrow> real list \<Rightarrow> real option" where
  "var ddof xs =
     (if length xs \<le> ddof then None
      else let avg = sum_list xs / real (length xs)
           in Some (sum_list (map (\<lambda>v. (avg - v)\<^sup>2) xs) / real (length xs - ddof)))"

definition std :: "real list \<Rightarrow> real option" where
  "std xs = map_option sqrt (var 1 xs)"

text \<open>Lines 91-92: float arithmetic, \<^verbatim>\<open>nan\<close> when an operand is.\<close>

definition upper_limit :: "real list \<Rightarrow> real option" where
  "upper_limit xs =
     (case (mean xs, std xs) of (Some avg, Some sd) \<Rightarrow> Some (avg + 3 * sd) | _ \<Rightarrow> None)"

definition lower_limit :: "real list \<Rightarrow> real option" where
  "lower_limit xs =
     (case (mean xs, std xs) of (Some avg, Some sd) \<Rightarrow> Some (avg - 3 * sd) | _ \<Rightarrow> None)"

text \<open>
  Line 101, \<^verbatim>\<open>df.loc[df[c] >= upper_limit, c] = upper_limit\<close>, cell by cell: a comparison
  with \<^verbatim>\<open>nan\<close> on either side is false, so such a cell keeps its value.
\<close>

definition clamp_cell :: "real option \<Rightarrow> cell \<Rightarrow> cell" where
  "clamp_cell ul x =
     (case (ul, x) of (Some u, Num v) \<Rightarrow> if v \<ge> u then Num u else Num v | _ \<Rightarrow> x)"

definition set_column :: "string \<Rightarrow> cell list \<Rightarrow> table \<Rightarrow> table" where
  "set_column n c t = map (\<lambda>(m, c'). if m = n then (m, c) else (m, c')) t"

text \<open>\<^verbatim>\<open>df[c] < b\<close> (line 125)\<close>

definition series_lt :: "real \<Rightarrow> cell list \<Rightarrow> py_error + bool list" where
  "series_lt b c =
     (if is_numeric c
      then Inr (map (\<lambda>x. case x of Num v \<Rightarrow> v < b | Str s \<Rightarrow> False | NaN \<Rightarrow> False) c)
      else Inl TypeError)"

text \<open>\<^verbatim>\<open>df[mask]\<close>: the rows whose mask entry is true, as a new table.\<close>

definition select_rows :: "bool list \<Rightarrow> table \<Rightarrow> table" where
  "select_rows keep t = map (\<lambda>(n, c). (n, map fst (filter snd (zip c keep)))) t"

definition head :: "nat \<Rightarrow> table \<Rightarrow> table" where
  "head k t = map (\<lambda>(n, c). (n, take k c)) t"

text \<open>
  \<^verbatim>\<open>df[[n1, n2, ...]]\<close>: the named columns in the order asked, \<open>None\<close> when one of
  them is not a column.
\<close>

definition project :: "string list \<Rightarrow> table \<Rightarrow> table option" where
  "project ns t = those (map (\<lambda>n. map_option (Pair n) (column t n)) ns)"

text \<open>\<^verbatim>\<open>df.isnull().sum()\<close>: per column, the number of missing markers.\<close>

definition isnull_sum :: "table \<Rightarrow> (string \<times> nat) list" where
  "isnull_sum t = map (\<lambda>(n, c). (n, length (filter (\<lambda>x. x = NaN) c))) t"

text \<open>\<^verbatim>\<open>df.select_dtypes(include=[np.number])\<close>: the columns whose dtype is numeric.\<close>

definition select_numeric :: "table \<Rightarrow> table" where
  "select_numeric t = filter (\<lambda>(n, c). c \<noteq> [] \<and> is_numeric c) t"

section \<open>Grouping and cross-tabulation\<close>

text \<open>
  pandas orders group keys and cross-tabulation labels by sorting them; in a column of
  mixed values numbers come before strings. \<open>cell_key\<close> is that order.
\<close>

definition cell_key :: "cell \<Rightarrow> nat \<times> real \<times> string" where
  "cell_key x = (case x of Num v \<Rightarrow> (0, v, []) | Str s \<Rightarrow> (1, 0, s) | NaN \<Rightarrow> (2, 0, []))"

text \<open>
  \<^verbatim>\<open>df.groupby('Age')['Ave_Weekday_Sleep'].mean()\<close> (line 111), as one pass over the
  rows that keeps, per key and in key order, the sum and the count of the values seen.
  Rows whose key is missing are dropped; a missing value counts for nothing.
\<close>

definition add_value :: "cell \<Rightarrow> real \<times> nat \<Rightarrow> real \<times> nat" where
  "add_value x a = (case x of Num v \<Rightarrow> (fst a + v, Suc (snd a)) | Str s \<Rightarrow> a | NaN \<Rightarrow> a)"

fun group_add :: "cell \<Rightarrow> cell \<Rightarrow> (cell \<times> real \<times> nat) list \<Rightarrow> (cell \<times> real \<times> nat) list" where
  "group_add k x [] = [(k, add_value x (0, 0))]"
| "group_add k x ((k', a) # gs) =
     (if k = k' then (k', add_value x a) # gs
      else if cell_key k < cell_key k' then (k, add_value x (0, 0)) # (k', a) # gs
      else (k', a) # group_add k x gs)"

definition groups :: "(cell \<times> cell) list \<Rightarrow> (cell \<times> real \<times> nat) list" where
  "groups rows = foldl (\<lambda>gs (k, x). if k = NaN then gs else group_add k x gs) [] rows"

definition group_mean :: "real \<times> nat \<Rightarrow> real option" where
  "group_mean a = (if snd a = 0 then None else Some (fst a / real (snd a)))"

definition groupby_mean :: "cell list \<Rightarrow> cell list \<Rightarrow> py_error + (cell \<times> real option) list" where
  "groupby_mean keys c =
     (if is_numeric c
      then Inr (map (\<lambda>(k, a). (k, group_mean a)) (groups (zip keys c)))
      else Inl TypeError)"

text \<open>
  \<^verbatim>\<open>pd.crosstab(a, b)\<close> (lines 152, 165): one row per value of \<open>a\<close>, one column per
  value of \<open>b\<close>, each entry the number of rows of the table with that pair of values.
\<close>

definition labels :: "cell list \<Rightarrow> cell list" where
  "labels c = sort_key cell_key (remdups c)"

definition crosstab :: "cell list \<Rightarrow> cell list \<Rightarrow> nat list list" where
  "crosstab a b =
     (let pairs = filter (\<lambda>(x, y). x \<noteq> NaN \<and> y \<noteq> NaN) (zip a b)
      in map (\<lambda>r. map (\<lambda>c. count_list pairs (r, c)) (labels (map snd pairs)))
           (labels (map fst pairs)))"

section \<open>Reporter (lines 42-173)\<close>

text \<open>
  Each block of the script is one step on the state. A guard \<^verbatim>\<open>if n in df.columns\<close>
  and the accesses \<^verbatim>\<open>df[n]\<close> it protects are one lookup \<open>column (df s) n\<close>: \<open>Some\<close>
  the cells when the column exists (the guarded branch), \<open>None\<close> when it does not (the
  \<^verbatim>\<open>else\<close> branch).
\<close>

fun str_nat :: "nat \<Rightarrow> string" where
  "str_nat n =
     (if n < 10 then [char_of (48 + n)] else str_nat (n div 10) @ [char_of (48 + n mod 10)])"

declare str_nat.simps [simp del]

text \<open>\<^verbatim>\<open>df.shape[0]\<close>\<close>

definition n_rows :: "table \<Rightarrow> nat" where
  "n_rows t = (case t of [] \<Rightarrow> 0 | (n, c) # r \<Rightarrow> length c)"

text \<open>Lines 10-13, before the table is loaded.\<close>

definition header_step :: "state \<Rightarrow> state" where
  "header_step s =
     emit (Write [AStr ([CHR 0x0A] @ ''This dashboard provides an analysis of survey data on screen time, sleep patterns, and their impact on health and social interactions.'' @ [CHR 0x0A])])
       (emit (Title ''Screen Time and Health Analysis Dashboard'') s)"

text \<open>Lines 43-44; \<open>show_raw\<close> is the value of the checkbox.\<close>

definition raw_data_step :: "bool \<Rightarrow> state \<Rightarrow> state" where
  "raw_data_step show_raw s = (if show_raw then emit (Write [AFrame (head 10 (df s))]) s else s)"

text \<open>Lines 47-51.\<close>

definition data_information_step :: "state \<Rightarrow> state" where
  "data_information_step s0 =
     (let s1 = emit (Subheader ''Data Information'') s0;
          s2 = emit (Write [AStr (''Number of rows: '' @ str_nat (n_rows (df s1)))]) s1;
          s3 = emit (Write [AStr (''Number of columns: '' @ str_nat (length (df s2)))]) s2;
          s4 = emit (Write [AStr ''Columns:'']) s3
      in emit (Write [ANames (columns (df s4))]) s4)"

text \<open>
  Lines 54-61. \<^verbatim>\<open>df.describe()\<close> raises \<^verbatim>\<open>ValueError\<close> on a frame without columns.
\<close>

definition basic_information_step :: "state \<Rightarrow> state" where
  "basic_information_step s0 =
     (let s1 = emit (Subheader ''Basic Information'') s0;
          s2 = emit (Info (df s1)) s1;
          s3 = emit (Subheader ''Statistical Summary'') s2
      in if df s3 = [] then raise ValueError s3
         else emit (Write [ADescribe (df s3)]) s3)"

text \<open>Lines 64-65.\<close>

definition null_values_step :: "state \<Rightarrow> state" where
  "null_values_step s0 =
     (let s1 = emit (Subheader ''Null Values'') s0
      in emit (Write [ACounts (isnull_sum (df s1))]) s1)"

text \<open>
  Lines 68-74; no guard. When no column is numeric the correlation matrix is empty:
  it is written as it is (line 70), and \<^verbatim>\<open>sns.heatmap\<close> (line 73) raises
  \<^verbatim>\<open>ValueError\<close> on it.
\<close>

definition correlation_step :: "state \<Rightarrow> state" where
  "correlation_step s0 =
     (let s1 = emit (Subheader ''Correlation Analysis'') s0;
          numeric_df = select_numeric (df s1);
          s2 = emit (Write [ACorr numeric_df]) s1
      in if numeric_df = [] then raise ValueError s2
         else emit (Pyplot (Heatmap numeric_df)) s2)"

text \<open>
  Lines 77-106. The first reduction, \<^verbatim>\<open>mean()\<close> on line 87, raises on a column that
  holds a string; past it the column is numeric.
\<close>

definition outlier_step :: "state \<Rightarrow> state" where
  "outlier_step s0 =
     (let s1 = emit (Subheader ''Outlier Analysis - Weekday Sleep'') s0;
          s2 = emit (Write [AStr ''Columns in DataFrame:'', ANames (columns (df s1))]) s1
      in case column (df s2) ''Ave_Weekday_Sleep'' of
           None \<Rightarrow>
             emit (Write [AStr ''Column 'Ave_Weekday_Sleep' does not exist in the DataFrame.'']) s2
         | Some c \<Rightarrow>
             (let s3 = emit (Pyplot (Boxplot c)) s2
              in if \<not> is_numeric c then raise TypeError s3
                 else
                   (let avg_sleep = mean (nums c);
                        min_sleep = minimum (nums c);
                        max_sleep = maximum (nums c);
                        ul = upper_limit (nums c);
                        ll = lower_limit (nums c);
                        s4 = emit (Write [AStr ''The Average weekday sleep of the respondents was found to be: '', ANum avg_sleep, AStr ''hrs'']) s3;
                        s5 = emit (Write [AStr ''The Minimum weekday sleep of the respondents was found to be: '', ANum min_sleep, AStr ''hrs'']) s4;
                        s6 = emit (Write [AStr ''The Maximum weekday sleep of the respondents was found to be: '', ANum max_sleep, AStr ''hrs'']) s5;
                        s7 = emit (Write [AStr ''Upper limit for outliers: '', ANum ul]) s6;
                        s8 = emit (Write [AStr ''Lower limit for outliers: '', ANum ll]) s7;
                        c' = map (clamp_cell ul) c;
                        s9 = s8\<lparr>df := set_column ''Ave_Weekday_Sleep'' c' (df s8)\<rparr>
                    in emit (Pyplot (Boxplot c')) s9)))"

text \<open>Lines 109-120.\<close>

definition age_group_step :: "state \<Rightarrow> state" where
  "age_group_step s0 =
     (let s1 = emit (Subheader ''Average Weekday Sleep by Age Group'') s0
      in case (column (df s1) ''Age'', column (df s1) ''Ave_Weekday_Sleep'') of
           (Some a, Some c) \<Rightarrow>
             (case groupby_mean a c of
                Inl e \<Rightarrow> raise e s1
              | Inr age_group_means \<Rightarrow> emit (Pyplot (Bar age_group_means)) s1)
         | _ \<Rightarrow>
             emit (Write [AStr ''Columns 'Age' and/or 'Ave_Weekday_Sleep' do not exist in the DataFrame.'']) s1)"

text \<open>
  Lines 123-147. The two inner guards test \<^verbatim>\<open>df.columns\<close>, which are the columns of
  \<^verbatim>\<open>filtered_df\<close> too.
\<close>

definition less_sleep_step :: "state \<Rightarrow> state" where
  "less_sleep_step s0 =
     (let s1 = emit (Subheader ''Respondents with Less than 6 Hours of Weekday Sleep'') s0
      in case column (df s1) ''Ave_Weekday_Sleep'' of
           None \<Rightarrow>
             emit (Write [AStr ''Column 'Ave_Weekday_Sleep' does not exist in the DataFrame.'']) s1
         | Some c \<Rightarrow>
             (case series_lt 6 c of
                Inl e \<Rightarrow> raise e s1
              | Inr keep \<Rightarrow>
                  (let filtered_df = select_rows keep (df s1);
                       s2 = emit (Write [AFrame (head 5 filtered_df)]) s1;
                       s3 = emit (Write [AStr ''Health issues, eyewear use, and social interaction of such respondents'']) s2;
                       s4 = (case project [''Health_Effects'', ''Eyewear_User'', ''Interaction_Affects''] filtered_df of
                               Some p \<Rightarrow> emit (Write [AFrame (head 5 p)]) s3
                             | None \<Rightarrow> emit (Write [AStr ''One or more of the columns 'Health_Effects', 'Eyewear_User', 'Interaction_Affects' do not exist in the DataFrame.'']) s3);
                       s5 = emit (Subheader ''Impact of Sleep Time on Health Issues'') s4
                   in case column filtered_df ''Health_Effects'' of
                        Some h \<Rightarrow>
                          emit (Pyplot (Scatter (map fst (filter snd (zip c keep))) h)) s5
                      | None \<Rightarrow>
                          emit (Write [AStr ''Column 'Health_Effects' does not exist in the DataFrame.'']) s5)))"

text \<open>
  Lines 150-160 and 164-173 are the same block for \<^verbatim>\<open>ST_Weekday\<close> and
  \<^verbatim>\<open>ST_Weekend\<close>; \<open>Day\<close> and \<open>day\<close> are the word that differs in the texts.
  \<^verbatim>\<open>chi2_contingency\<close> is scipy's: the argument \<open>chi2_p\<close> stands for it, giving the
  p-value of a table of counts or the exception it raises.
\<close>

definition interaction_step ::
    "(nat list list \<Rightarrow> py_error + real) \<Rightarrow> string \<Rightarrow> string \<Rightarrow> string \<Rightarrow> state \<Rightarrow> state" where
  "interaction_step chi2_p st_col Day day s0 =
     (let s1 = emit (Subheader (''Impact of Screentime on Social Interaction ('' @ Day @ '')'')) s0
      in case (column (df s1) st_col, column (df s1) ''Interaction_Affects'') of
           (Some a, Some b) \<Rightarrow>
             (case chi2_p (crosstab a b) of
                Inl e \<Rightarrow> raise e s1
              | Inr p \<Rightarrow>
                  (let s2 = emit (Write [AStr ''p-value is: '', ANum (Some p)]) s1
                   in if p < 0.05
                      then emit (Write [AStr (''There is a significant association between average '' @ day @ '' screentime and social interaction.'')]) s2
                      else emit (Write [AStr (''There is no significant association between average '' @ day @ '' screentime and social interaction.'')]) s2))
         | _ \<Rightarrow>
             emit (Write [AStr (''Columns '' @ [CHR 0x27] @ st_col @ [CHR 0x27] @ '' and/or 'Interaction_Affects' do not exist in the DataFrame.'')]) s1)"

definition weekday_step :: "(nat list list \<Rightarrow> py_error + real) \<Rightarrow> state \<Rightarrow> state" where
  "weekday_step chi2_p = interaction_step chi2_p ''ST_Weekday'' ''Weekday'' ''weekday''"

definition weekend_step :: "(nat list list \<Rightarrow> py_error + real) \<Rightarrow> state \<Rightarrow> state" where
  "weekend_step chi2_p = interaction_step chi2_p ''ST_Weekend'' ''Weekend'' ''weekend''"

text \<open>
  The steps after the table is loaded, in script order; a step runs only if no earlier one
  raised.
\<close>

definition report_steps :: "(nat list list \<Rightarrow> py_error + real) \<Rightarrow> bool \<Rightarrow> (state \<Rightarrow> state) list" where
  "report_steps chi2_p show_raw =
     [raw_data_step show_raw, data_information_step, basic_information_step,
      null_values_step, correlation_step, outlier_step, age_group_step, less_sleep_step,
      weekday_step chi2_p, weekend_step chi2_p]"

definition run_steps :: "(state \<Rightarrow> state) list \<Rightarrow> state \<Rightarrow> state" where
  "run_steps fs s = foldl (\<lambda>s f. if raised s = None then f s else s) s fs"

text \<open>
  The whole script: the title, then \<^verbatim>\<open>df = load_data()\<close> (line 40), then the report.
  \<open>csv\<close> is the outcome of \<^verbatim>\<open>read_csv\<close>.
\<close>

definition script :: "(nat list list \<Rightarrow> py_error + real) \<Rightarrow> bool \<Rightarrow> py_error + table \<Rightarrow> state" where
  "script chi2_p show_raw csv =
     (let s0 = header_step \<lparr>df = [], out = [], raised = None\<rparr>
      in case load_data csv of
           Inl e \<Rightarrow> raise e s0
         | Inr t \<Rightarrow> run_steps (report_steps chi2_p show_raw) (s0\<lparr>df := t\<rparr>))"

section \<open>Sample tables\<close>

text \<open>Concrete inputs on which the theorems below are instantiated.\<close>

definition sample_csv :: table where
  "sample_csv =
     [(''Timestamp'', [Str ''2024/01/05'', Str ''2024/01/06'']),
      (''What is your age?'', [Str ''18-24'', NaN]),
      (''On average, how many hours of sleep do you get on a typical weekday night?'', [Num 7, NaN]),
      (''What is your gender?'', [NaN, Str ''Female''])]"

definition sample_table :: table where
  "sample_table =
     [(''Age'', [Str ''18-24'', Str ''0'']),
      (''Ave_Weekday_Sleep'', [Num 7, Str ''0'']),
      (''Gender'', [Str ''0'', Str ''Female''])]"

text \<open>A survey file with neither sleep question nor the health question.\<close>

definition sample_short_csv :: table where
  "sample_short_csv =
     [(''Timestamp'', [Str ''2024/01/05'', Str ''2024/01/06'']),
      (''What is your age?'', [Str ''18-24'', Str ''25-34'']),
      (''What is your gender?'', [NaN, Str ''Female''])]"

definition sample_short_table :: table where
  "sample_short_table =
     [(''Age'', [Str ''18-24'', Str ''25-34'']),
      (''Gender'', [Str ''0'', Str ''Female''])]"

text \<open>A loaded table with the weekday sleep column alone.\<close>

definition sample_sleep_only :: table where
  "sample_sleep_only = [(''Ave_Weekday_Sleep'', [Num 5, Num 7])]"

text \<open>A survey file whose sleep column already carries the short name.\<close>

definition sample_prenamed_csv :: table where
  "sample_prenamed_csv =
     [(''Timestamp'', [Str ''2024/01/05'', Str ''2024/01/06'']),
      (''Ave_Weekday_Sleep'', [Num 5, Num 7])]"

text \<open>
  A loaded table of sixteen respondents: one sleeps 6 hours, fifteen sleep 5. The mean is
  81/16, the sample standard deviation 1/4, so the upper limit is 93/16 (5.8125) and the
  lower limit 69/16.
\<close>

definition sample_sleep :: "real list" where
  "sample_sleep = [6, 5, 5, 5, 5, 5, 5, 5, 5, 5, 5, 5, 5, 5, 5, 5]"

definition sample_age :: "cell list" where
  "sample_age =
     [Str ''25-34'', Str ''25-34'', Str ''25-34'', Str ''25-34'',
      Str ''25-34'', Str ''25-34'', Str ''25-34'', Str ''25-34'',
      Str ''18-24'', Str ''18-24'', Str ''18-24'', Str ''18-24'',
      Str ''18-24'', Str ''18-24'', Str ''18-24'', Str ''18-24'']"

definition sample_survey :: table where
  "sample_survey = [(''Age'', sample_age), (''Ave_Weekday_Sleep'', map Num sample_sleep)]"

text \<open>
  A loaded table of three respondents sleeping 6, 7 and 8 hours: mean 7, sample standard
  deviation 1, limits 10 and 4.
\<close>

definition sample_regular :: table where
  "sample_regular =
     [(''Age'', [Str ''25-34'', Str ''18-24'', Str ''25-34'']),
      (''Ave_Weekday_Sleep'', [Num 6, Num 7, Num 8])]"

text \<open>
  A loaded table of three respondents in two age groups; the group that comes first in
  the file sorts last and has the smaller mean.
\<close>

definition sample_groups :: table where
  "sample_groups =
     [(''Age'', [Str ''25-34'', Str ''18-24'', Str ''25-34'']),
      (''Ave_Weekday_Sleep'', [Num 6, Num 8, Num 7])]"

text \<open>A loaded table with the two screen-time columns and the interaction column.\<close>

definition sample_interaction :: table where
  "sample_interaction =
     [(''ST_Weekday'', [Str ''1-2'', Str ''3-4'', Str ''1-2'']),
      (''ST_Weekend'', [Str ''3-4'', Str ''3-4'', Str ''5-6'']),
      (''Interaction_Affects'', [Str ''Yes'', Str ''No'', Str ''Yes''])]"

text \<open>
  A survey file with both sleep questions; one respondent left the weekday one blank, so
  the loaded weekday column mixes a number with the string that replaced the blank,
  while the weekend column stays numeric.
\<close>

definition sample_mixed_csv :: table where
  "sample_mixed_csv =
     [(''Timestamp'', [Str ''2024/01/05'', Str ''2024/01/06'']),
      (''On average, how many hours of sleep do you get on a typical weekday night?'', [Num 7, NaN]),
      (''On average, how many hours of sleep do you get on a typical weekend night?'', [Num 8, Num 9])]"

definition sample_mixed_table :: table where
  "sample_mixed_table =
     [(''Ave_Weekday_Sleep'', [Num 7, Str ''0'']),
      (''Ave_Weekend_Sleep'', [Num 8, Num 9])]"

text \<open>A survey file with the weekday sleep question alone, fully answered.\<close>

definition sample_sleep_csv :: table where
  "sample_sleep_csv =
     [(''Timestamp'', [Str ''2024/01/05'', Str ''2024/01/06'']),
      (''On average, how many hours of sleep do you get on a typical weekday night?'', [Num 5, Num 7])]"

section \<open>Basic facts\<close>

lemma has_column_iff: "has_column n t \<longleftrightarrow> column t n \<noteq> None"
  by (simp add: has_column_def column_def columns_def map_of_eq_None_iff)

lemma df_emit [simp]: "df (emit x s) = df s"
  and raised_emit [simp]: "raised (emit x s) = raised s"
  and out_emit [simp]: "out (emit x s) = out s @ [x]"
  by (simp_all add: emit_def)

lemma df_raise [simp]: "df (raise e s) = df s"
  and raised_raise [simp]: "raised (raise e s) = Some e"
  and out_raise [simp]: "out (raise e s) = out s"
  by (simp_all add: raise_def)

lemma replace_cell_not_NaN: "replace_cell x \<noteq> NaN"
  by (cases x) (simp_all add: replace_cell_def)

lemma replace_cell_eq: "replace_cell x = (if x = NaN then Str ''0'' else x)"
  by (cases x) (simp_all add: replace_cell_def)

lemma isnull_sum_replace_nan:
  "isnull_sum (replace_nan t) = map (\<lambda>n. (n, 0)) (columns (replace_nan t))"
  by (induction t) (auto simp: isnull_sum_def replace_nan_def columns_def replace_cell_not_NaN)

lemma replace_nan_no_NaN: "(n, c) \<in> set (replace_nan t) \<Longrightarrow> NaN \<notin> set c"
proof
  assume m: "(n, c) \<in> set (replace_nan t)" and x: "NaN \<in> set c"
  from m obtain b where "c = map replace_cell b"
    by (auto simp: replace_nan_def)
  with x obtain y where "NaN = replace_cell y"
    by auto
  then show False
    using replace_cell_not_NaN [of y] by simp
qed

lemma load_data_Inr:
  assumes "load_data (Inr t0) = Inr t"
  shows "has_column ''Timestamp'' t0"
    and "t = replace_nan (rename_columns column_names (filter (\<lambda>(m, c). m \<noteq> ''Timestamp'') t0))"
  using assms by (auto simp: load_data_def drop_column_def split: if_splits)

lemma sample_loaded: "load_data (Inr sample_csv) = Inr sample_table"
  by (simp add: load_data_def drop_column_def has_column_def columns_def sample_csv_def
      sample_table_def rename_columns_def rename_label_def column_names_def replace_nan_def
      replace_cell_def)

lemma sample_short_loaded: "load_data (Inr sample_short_csv) = Inr sample_short_table"
  by (simp add: load_data_def drop_column_def has_column_def columns_def sample_short_csv_def
      sample_short_table_def rename_columns_def rename_label_def column_names_def
      replace_nan_def replace_cell_def)

lemma columns_replace_nan [simp]: "columns (replace_nan t) = columns t"
  by (induction t) (auto simp: columns_def replace_nan_def)

lemma columns_rename_columns [simp]:
  "columns (rename_columns m t) = map (rename_label m) (columns t)"
  by (induction t) (auto simp: columns_def rename_columns_def)

lemma rename_label_unmapped: "n \<notin> fst ` set m \<Longrightarrow> rename_label m n = n"
proof -
  assume "n \<notin> fst ` set m"
  then have "map_of m n = None"
    by (simp add: map_of_eq_None_iff)
  then show ?thesis
    by (simp add: rename_label_def)
qed

lemma distinct_short_names: "distinct (map snd column_names)"
  by (simp add: column_names_def)

lemma rename_label_source:
  assumes "(long, short) \<in> set column_names"
    and "rename_label column_names n = short"
  shows "n = long \<or> n = short"
proof (cases "map_of column_names n")
  case None
  with assms(2) show ?thesis
    by (simp add: rename_label_def)
next
  case (Some n')
  with assms(2) have "n' = short"
    by (simp add: rename_label_def)
  with Some have "(n, short) \<in> set column_names"
    by (simp add: map_of_SomeD)
  moreover have "inj_on snd (set column_names)"
    using distinct_short_names by (simp add: distinct_map)
  ultimately have "(n, short) = (long, short)"
    using assms(1) inj_onD [of snd "set column_names" "(n, short)" "(long, short)"] by simp
  then show ?thesis
    by simp
qed

lemma sample_prenamed_loaded:
  "load_data (Inr sample_prenamed_csv) = Inr sample_sleep_only"
  by (simp add: load_data_def drop_column_def has_column_def columns_def sample_prenamed_csv_def
      sample_sleep_only_def rename_columns_def rename_label_def column_names_def
      replace_nan_def replace_cell_def)

lemma sample_mixed_loaded: "load_data (Inr sample_mixed_csv) = Inr sample_mixed_table"
  by (simp add: load_data_def drop_column_def has_column_def columns_def sample_mixed_csv_def
      sample_mixed_table_def rename_columns_def rename_label_def column_names_def
      replace_nan_def replace_cell_def)

lemma sample_sleep_loaded: "load_data (Inr sample_sleep_csv) = Inr sample_sleep_only"
  by (simp add: load_data_def drop_column_def has_column_def columns_def sample_sleep_csv_def
      sample_sleep_only_def rename_columns_def rename_label_def column_names_def
      replace_nan_def replace_cell_def)

section \<open>What each step leaves alone\<close>

lemma raw_data_step_frame [simp]:
  "df (raw_data_step b s) = df s" "raised (raw_data_step b s) = raised s"
  by (simp_all add: raw_data_step_def)

lemma data_information_step_frame [simp]:
  "df (data_information_step s) = df s" "raised (data_information_step s) = raised s"
  by (simp_all add: data_information_step_def Let_def)

lemma basic_information_step_frame [simp]:
  "df (basic_information_step s) = df s"
  "raised (basic_information_step s) = (if df s = [] then Some ValueError else raised s)"
  by (simp_all add: basic_information_step_def Let_def)

lemma null_values_step_frame [simp]:
  "df (null_values_step s) = df s" "raised (null_values_step s) = raised s"
  by (simp_all add: null_values_step_def Let_def)

lemma correlation_step_frame [simp]:
  "df (correlation_step s) = df s"
  "raised (correlation_step s) = (if select_numeric (df s) = [] then Some ValueError else raised s)"
  by (simp_all add: correlation_step_def Let_def)

lemma age_group_step_df [simp]: "df (age_group_step s) = df s"
  by (simp add: age_group_step_def Let_def split: option.splits sum.splits)

lemma less_sleep_step_df [simp]: "df (less_sleep_step s) = df s"
  by (simp add: less_sleep_step_def Let_def split: option.splits sum.splits)

lemma interaction_step_df [simp]: "df (interaction_step chi2_p st_col Day day s) = df s"
  by (simp add: interaction_step_def Let_def split: option.splits sum.splits)

lemma weekday_step_df [simp]: "df (weekday_step chi2_p s) = df s"
  by (simp add: weekday_step_def)

lemma weekend_step_df [simp]: "df (weekend_step chi2_p s) = df s"
  by (simp add: weekend_step_def)

lemma outlier_step_absent:
  assumes "column (df s) ''Ave_Weekday_Sleep'' = None"
  shows "outlier_step s =
     s\<lparr>out := out s @
        [Subheader ''Outlier Analysis - Weekday Sleep'',
         Write [AStr ''Columns in DataFrame:'', ANames (columns (df s))],
         Write [AStr ''Column 'Ave_Weekday_Sleep' does not exist in the DataFrame.'']]\<rparr>"
  using assms by (simp add: outlier_step_def Let_def emit_def)

lemma outlier_step_not_numeric:
  assumes "column (df s) ''Ave_Weekday_Sleep'' = Some c" and "\<not> is_numeric c"
  shows "outlier_step s =
     s\<lparr>out := out s @
        [Subheader ''Outlier Analysis - Weekday Sleep'',
         Write [AStr ''Columns in DataFrame:'', ANames (columns (df s))],
         Pyplot (Boxplot c)],
       raised := Some TypeError\<rparr>"
  using assms by (simp add: outlier_step_def Let_def emit_def raise_def)

lemma run_steps_Nil [simp]: "run_steps [] s = s"
  by (simp add: run_steps_def)

lemma run_steps_Cons [simp]:
  "run_steps (f # fs) s = run_steps fs (if raised s = None then f s else s)"
  by (simp add: run_steps_def)

lemma run_steps_raised: "raised s = Some e \<Longrightarrow> run_steps fs s = s"
  by (induction fs) simp_all

lemma run_steps_preserves:
  assumes "\<And>f s. f \<in> set fs \<Longrightarrow> P s \<Longrightarrow> P (f s)" and "P s"
  shows "P (run_steps fs s)"
  using assms by (induction fs arbitrary: s) simp_all

lemma not_numeric_iff: "\<not> is_numeric c \<longleftrightarrow> (\<exists>x. Str x \<in> set c)"
proof
  assume "\<not> is_numeric c"
  then obtain y where y: "y \<in> set c" "(case y of Str s \<Rightarrow> False | Num v \<Rightarrow> True | NaN \<Rightarrow> True) = False"
    by (auto simp: is_numeric_def list_all_iff)
  from y(2) obtain x where "y = Str x"
    by (cases y) simp_all
  with y(1) show "\<exists>x. Str x \<in> set c"
    by blast
next
  assume "\<exists>x. Str x \<in> set c"
  then show "\<not> is_numeric c"
    by (force simp: is_numeric_def list_all_iff)
qed

lemma age_group_step_absent:
  assumes "column (df s) ''Age'' = None \<or> column (df s) ''Ave_Weekday_Sleep'' = None"
  shows "age_group_step s =
     s\<lparr>out := out s @
        [Subheader ''Average Weekday Sleep by Age Group'',
         Write [AStr ''Columns 'Age' and/or 'Ave_Weekday_Sleep' do not exist in the DataFrame.'']]\<rparr>"
  using assms by (auto simp: age_group_step_def Let_def emit_def split: option.splits)

lemma less_sleep_step_absent:
  assumes "column (df s) ''Ave_Weekday_Sleep'' = None"
  shows "less_sleep_step s =
     s\<lparr>out := out s @
        [Subheader ''Respondents with Less than 6 Hours of Weekday Sleep'',
         Write [AStr ''Column 'Ave_Weekday_Sleep' does not exist in the DataFrame.'']]\<rparr>"
  using assms by (simp add: less_sleep_step_def Let_def emit_def)

lemma interaction_step_absent:
  assumes "column (df s) st_col = None \<or> column (df s) ''Interaction_Affects'' = None"
  shows "interaction_step chi2_p st_col Day day s =
     s\<lparr>out := out s @
        [Subheader (''Impact of Screentime on Social Interaction ('' @ Day @ '')''),
         Write [AStr (''Columns '' @ [CHR 0x27] @ st_col @ [CHR 0x27] @
                  '' and/or 'Interaction_Affects' do not exist in the DataFrame.'')]]\<rparr>"
  using assms by (auto simp: interaction_step_def Let_def emit_def split: option.splits)

lemma column_select_rows:
  "column (select_rows keep t) n = map_option (\<lambda>c. map fst (filter snd (zip c keep))) (column t n)"
  by (induction t) (auto simp: column_def select_rows_def)

lemma less_sleep_step_no_health:
  assumes "column (df s) ''Health_Effects'' = None"
    and "column (df s) ''Ave_Weekday_Sleep'' = Some c" and "is_numeric c"
  shows "less_sleep_step s =
     s\<lparr>out := out s @
        [Subheader ''Respondents with Less than 6 Hours of Weekday Sleep'',
         Write [AFrame (head 5 (select_rows
            (map (\<lambda>x. case x of Num v \<Rightarrow> v < 6 | Str s \<Rightarrow> False | NaN \<Rightarrow> False) c) (df s)))],
         Write [AStr ''Health issues, eyewear use, and social interaction of such respondents''],
         Write [AStr ''One or more of the columns 'Health_Effects', 'Eyewear_User', 'Interaction_Affects' do not exist in the DataFrame.''],
         Subheader ''Impact of Sleep Time on Health Issues'',
         Write [AStr ''Column 'Health_Effects' does not exist in the DataFrame.'']]\<rparr>"
  using assms
  by (simp add: less_sleep_step_def Let_def emit_def series_lt_def project_def column_select_rows)

lemma column_Some_nonempty: "column t n = Some c \<Longrightarrow> t \<noteq> []"
  by (auto simp: column_def)

lemma report_stops_at_outlier_step:
  assumes "raised s = None" and "column (df s) ''Ave_Weekday_Sleep'' = Some c"
    and "\<not> is_numeric c" and "select_numeric (df s) \<noteq> []"
  shows "run_steps (report_steps chi2_p show_raw) s =
     outlier_step (correlation_step (null_values_step (basic_information_step
       (data_information_step (raw_data_step show_raw s)))))"
proof -
  let ?s = "correlation_step (null_values_step (basic_information_step
       (data_information_step (raw_data_step show_raw s))))"
  have ne: "df s \<noteq> []"
    using assms(2) by (rule column_Some_nonempty)
  have "column (df ?s) ''Ave_Weekday_Sleep'' = Some c"
    using assms(2) by simp
  then have "raised (outlier_step ?s) = Some TypeError"
    using assms(3) by (simp add: outlier_step_not_numeric [where c = c])
  then show ?thesis
    using assms(1,4) ne by (simp add: report_steps_def run_steps_raised)
qed

lemma report_stops_at_heatmap:
  assumes "raised s = None" and "df s \<noteq> []" and "select_numeric (df s) = []"
  shows "raised (run_steps (report_steps chi2_p show_raw) s) = Some ValueError"
proof -
  let ?s = "correlation_step (null_values_step (basic_information_step
       (data_information_step (raw_data_step show_raw s))))"
  have "raised ?s = Some ValueError"
    using assms by simp
  then show ?thesis
    using assms(1,2) by (simp add: report_steps_def run_steps_raised)
qed

text \<open>
  A loaded table without a numeric column does not get past the heatmap: the run ends
  with the \<^verbatim>\<open>ValueError\<close> of line 73, before the outlier step.
\<close>

lemma script_ends_at_heatmap:
  assumes "load_data csv = Inr t" and "t \<noteq> []" and "select_numeric t = []"
  shows "raised (script chi2_p show_raw csv) = Some ValueError"
proof -
  let ?init = "(header_step \<lparr>df = [], out = [], raised = None\<rparr>)\<lparr>df := t\<rparr>"
  have "raised ?init = None" and "df ?init \<noteq> []" and "select_numeric (df ?init) = []"
    using assms(2,3) by (simp_all add: header_step_def)
  then have "raised (run_steps (report_steps chi2_p show_raw) ?init) = Some ValueError"
    by (rule report_stops_at_heatmap)
  then show ?thesis
    using assms(1) by (simp add: script_def Let_def)
qed

lemma sample_run_ends_at_heatmap:
  "raised (script chi2_p show_raw (Inr sample_csv)) = Some ValueError"
proof (rule script_ends_at_heatmap [OF sample_loaded])
  show "sample_table \<noteq> []"
    by (simp add: sample_table_def)
  show "select_numeric sample_table = []"
    by (simp add: select_numeric_def sample_table_def is_numeric_def)
qed

lemma those_None: "None \<in> set xs \<Longrightarrow> those xs = None"
  by (induction xs) (auto split: option.splits)

lemma project_missing:
  assumes "n \<in> set ns" and "column t n = None"
  shows "project ns t = None"
proof -
  have "map_option (Pair n) (column t n) \<in> set (map (\<lambda>n. map_option (Pair n) (column t n)) ns)"
    using assms(1) by (rule imageI [of n "set ns", folded set_map])
  then have "None \<in> set (map (\<lambda>n. map_option (Pair n) (column t n)) ns)"
    using assms(2) by simp
  then show ?thesis
    unfolding project_def by (rule those_None)
qed

lemma less_sleep_step_added_numeric:
  assumes "column (df s) ''Ave_Weekday_Sleep'' = Some c" and "is_numeric c"
  shows "drop (length (out s)) (out (less_sleep_step s)) =
     [Subheader ''Respondents with Less than 6 Hours of Weekday Sleep'',
      Write [AFrame (head 5 (select_rows
         (map (\<lambda>x. case x of Num v \<Rightarrow> v < 6 | Str s \<Rightarrow> False | NaN \<Rightarrow> False) c) (df s)))],
      Write [AStr ''Health issues, eyewear use, and social interaction of such respondents''],
      (case project [''Health_Effects'', ''Eyewear_User'', ''Interaction_Affects'']
              (select_rows (map (\<lambda>x. case x of Num v \<Rightarrow> v < 6 | Str s \<Rightarrow> False | NaN \<Rightarrow> False) c) (df s)) of
         Some p \<Rightarrow> Write [AFrame (head 5 p)]
       | None \<Rightarrow> Write [AStr ''One or more of the columns 'Health_Effects', 'Eyewear_User', 'Interaction_Affects' do not exist in the DataFrame.'']),
      Subheader ''Impact of Sleep Time on Health Issues'',
      (case column (select_rows (map (\<lambda>x. case x of Num v \<Rightarrow> v < 6 | Str s \<Rightarrow> False | NaN \<Rightarrow> False) c) (df s))
              ''Health_Effects'' of
         Some h \<Rightarrow> Pyplot (Scatter (map fst (filter snd (zip c
            (map (\<lambda>x. case x of Num v \<Rightarrow> v < 6 | Str s \<Rightarrow> False | NaN \<Rightarrow> False) c)))) h)
       | None \<Rightarrow> Write [AStr ''Column 'Health_Effects' does not exist in the DataFrame.''])]"
  using assms by (simp add: less_sleep_step_def Let_def series_lt_def split: option.splits)

lemma less_sleep_step_projection_missing:
  assumes "column (df s) ''Ave_Weekday_Sleep'' = Some c" and "is_numeric c"
    and "n \<in> set [''Health_Effects'', ''Eyewear_User'', ''Interaction_Affects'']"
    and "column (df s) n = None"
  shows "drop (length (out s)) (out (less_sleep_step s)) ! 3 =
     Write [AStr ''One or more of the columns 'Health_Effects', 'Eyewear_User', 'Interaction_Affects' do not exist in the DataFrame.'']"
proof -
  let ?F = "select_rows (map (\<lambda>x. case x of Num v \<Rightarrow> v < 6 | Str s \<Rightarrow> False | NaN \<Rightarrow> False) c) (df s)"
  have "column ?F n = None"
    using assms(4) by (simp add: column_select_rows)
  with assms(3) have "project [''Health_Effects'', ''Eyewear_User'', ''Interaction_Affects''] ?F = None"
    by (rule project_missing)
  then show ?thesis
    unfolding less_sleep_step_added_numeric [OF assms(1,2)] by simp
qed

lemma less_sleep_step_scatter_missing:
  assumes "column (df s) ''Ave_Weekday_Sleep'' = Some c" and "is_numeric c"
    and "column (df s) ''Health_Effects'' = None"
  shows "last (out (less_sleep_step s)) =
     Write [AStr ''Column 'Health_Effects' does not exist in the DataFrame.'']"
  using less_sleep_step_no_health [OF assms(3,1,2)] by simp

section \<open>The outlier step on a numeric column\<close>

lemma nums_map_Num [simp]: "nums (map Num xs) = xs"
  by (induction xs) (simp_all add: nums_def)

lemma is_numeric_map_Num [simp]: "is_numeric (map Num xs)"
  by (induction xs) (simp_all add: is_numeric_def)

lemma column_set_column:
  "column t n = Some c0 \<Longrightarrow> column (set_column n c t) n = Some c"
  by (induction t) (auto simp: column_def set_column_def split: if_splits)

lemma column_set_column_other:
  "m \<noteq> n \<Longrightarrow> column (set_column n c t) m = column t m"
  by (induction t) (auto simp: column_def set_column_def)

lemma set_column_same:
  "distinct (columns t) \<Longrightarrow> column t n = Some c \<Longrightarrow> set_column n c t = t"
proof (induction t)
  case Nil
  then show ?case by (simp add: set_column_def)
next
  case (Cons p t)
  obtain m c' where p: "p = (m, c')" by (cases p)
  show ?case
  proof (cases "m = n")
    case True
    with Cons.prems p have c: "c' = c" and "n \<notin> set (columns t)"
      by (simp_all add: column_def columns_def)
    then have "\<forall>q \<in> set t. fst q \<noteq> n"
      by (auto simp: columns_def)
    then have "map (\<lambda>(m, c'). if m = n then (m, c) else (m, c')) t = t"
      by (induction t) auto
    with p True c show ?thesis
      by (simp add: set_column_def)
  next
    case False
    with Cons p show ?thesis
      by (simp add: set_column_def column_def columns_def)
  qed
qed

lemma clamp_cell_Num: "clamp_cell (Some u) (Num v) = Num (min v u)"
  by (simp add: clamp_cell_def min_def)

lemma clamp_cell_None [simp]: "clamp_cell None x = x"
  by (simp add: clamp_cell_def)

lemma clamp_column:
  "map (clamp_cell ul) (map Num xs) =
     map Num (case ul of None \<Rightarrow> xs | Some u \<Rightarrow> map (\<lambda>v. min v u) xs)"
  by (cases ul) (simp_all add: clamp_cell_Num)

lemma clamp_column_comp:
  "map (clamp_cell ul \<circ> Num) xs =
     map Num (case ul of None \<Rightarrow> xs | Some u \<Rightarrow> map (\<lambda>v. min v u) xs)"
  using clamp_column [of ul xs] by simp

lemma outlier_step_numeric:
  assumes "column (df s) ''Ave_Weekday_Sleep'' = Some c" and "is_numeric c"
  shows "outlier_step s =
     s\<lparr>df := set_column ''Ave_Weekday_Sleep'' (map (clamp_cell (upper_limit (nums c))) c) (df s),
       out := out s @
        [Subheader ''Outlier Analysis - Weekday Sleep'',
         Write [AStr ''Columns in DataFrame:'', ANames (columns (df s))],
         Pyplot (Boxplot c),
         Write [AStr ''The Average weekday sleep of the respondents was found to be: '', ANum (mean (nums c)), AStr ''hrs''],
         Write [AStr ''The Minimum weekday sleep of the respondents was found to be: '', ANum (minimum (nums c)), AStr ''hrs''],
         Write [AStr ''The Maximum weekday sleep of the respondents was found to be: '', ANum (maximum (nums c)), AStr ''hrs''],
         Write [AStr ''Upper limit for outliers: '', ANum (upper_limit (nums c))],
         Write [AStr ''Lower limit for outliers: '', ANum (lower_limit (nums c))],
         Pyplot (Boxplot (map (clamp_cell (upper_limit (nums c))) c))]\<rparr>"
  using assms by (simp add: outlier_step_def Let_def emit_def)

lemma outlier_step_numeric_df:
  assumes "column (df s) ''Ave_Weekday_Sleep'' = Some c" and "is_numeric c"
  shows "df (outlier_step s) =
     set_column ''Ave_Weekday_Sleep'' (map (clamp_cell (upper_limit (nums c))) c) (df s)"
  by (simp add: outlier_step_numeric [OF assms])

lemma outlier_step_numeric_out:
  assumes "column (df s) ''Ave_Weekday_Sleep'' = Some c" and "is_numeric c"
  shows "out (outlier_step s) =
     out s @
        [Subheader ''Outlier Analysis - Weekday Sleep'',
         Write [AStr ''Columns in DataFrame:'', ANames (columns (df s))],
         Pyplot (Boxplot c),
         Write [AStr ''The Average weekday sleep of the respondents was found to be: '', ANum (mean (nums c)), AStr ''hrs''],
         Write [AStr ''The Minimum weekday sleep of the respondents was found to be: '', ANum (minimum (nums c)), AStr ''hrs''],
         Write [AStr ''The Maximum weekday sleep of the respondents was found to be: '', ANum (maximum (nums c)), AStr ''hrs''],
         Write [AStr ''Upper limit for outliers: '', ANum (upper_limit (nums c))],
         Write [AStr ''Lower limit for outliers: '', ANum (lower_limit (nums c))],
         Pyplot (Boxplot (map (clamp_cell (upper_limit (nums c))) c))]"
  by (simp add: outlier_step_numeric [OF assms])

lemma outlier_step_numeric_raised:
  assumes "column (df s) ''Ave_Weekday_Sleep'' = Some c" and "is_numeric c"
  shows "raised (outlier_step s) = raised s"
  by (simp add: outlier_step_numeric [OF assms])

lemma var_nonneg:
  assumes "var ddof xs = Some v"
  shows "0 \<le> v"
proof -
  let ?avg = "sum_list xs / real (length xs)"
  from assms have n: "ddof < length xs"
    and v: "v = sum_list (map (\<lambda>v. (?avg - v)\<^sup>2) xs) / real (length xs - ddof)"
    by (simp_all add: var_def Let_def split: if_splits)
  have "0 \<le> sum_list (map (\<lambda>v. (?avg - v)\<^sup>2) xs)"
    by (rule sum_list_nonneg) auto
  then show ?thesis
    unfolding v by (rule divide_nonneg_nonneg) simp
qed

lemma std_nonneg: "std xs = Some sd \<Longrightarrow> 0 \<le> sd"
  by (auto simp: std_def dest: var_nonneg)

lemma limits_defined:
  "2 \<le> length xs \<Longrightarrow> \<exists>u l. upper_limit xs = Some u \<and> lower_limit xs = Some l"
  by (cases xs) (auto simp: upper_limit_def lower_limit_def mean_def std_def var_def Let_def)

lemma upper_limit_None_iff: "upper_limit xs = None \<longleftrightarrow> length xs < 2"
  by (cases xs) (auto simp: upper_limit_def mean_def std_def var_def Let_def split: option.splits)

lemma lower_le_upper:
  assumes "upper_limit xs = Some u" and "lower_limit xs = Some l"
  shows "l \<le> u"
proof -
  from assms obtain avg sd where "mean xs = Some avg" "std xs = Some sd"
    and "u = avg + 3 * sd" and "l = avg - 3 * sd"
    by (auto simp: upper_limit_def lower_limit_def split: option.splits)
  then show ?thesis
    using std_nonneg [of xs sd] by simp
qed

lemma sample_upper: "upper_limit sample_sleep = Some (93 / 16)"
  by (simp add: sample_sleep_def upper_limit_def mean_def std_def var_def Let_def
      power2_eq_square real_sqrt_divide)

lemma sample_lower: "lower_limit sample_sleep = Some (69 / 16)"
  by (simp add: sample_sleep_def lower_limit_def mean_def std_def var_def Let_def
      power2_eq_square real_sqrt_divide)

lemma regular_upper: "upper_limit [6, 7, 8] = Some 10"
  by (simp add: upper_limit_def mean_def std_def var_def Let_def power2_eq_square)

lemma regular_lower: "lower_limit [6, 7, 8] = Some 4"
  by (simp add: lower_limit_def mean_def std_def var_def Let_def power2_eq_square)

lemma is_numeric_clamp: "is_numeric c \<Longrightarrow> is_numeric (map (clamp_cell ul) c)"
proof -
  have "(case clamp_cell ul x of Str s \<Rightarrow> False | Num v \<Rightarrow> True | NaN \<Rightarrow> True)"
    if "(case x of Str s \<Rightarrow> False | Num v \<Rightarrow> True | NaN \<Rightarrow> True)" for x
    using that by (cases x; cases ul) (simp_all add: clamp_cell_def)
  then show "is_numeric c \<Longrightarrow> is_numeric (map (clamp_cell ul) c)"
    by (simp add: is_numeric_def list_all_iff)
qed

lemma numeric_past_outlier_step:
  assumes "raised s = None" and "raised (outlier_step s) = None"
    and "column (df (outlier_step s)) ''Ave_Weekday_Sleep'' = Some c'"
  shows "is_numeric c'"
proof (cases "column (df s) ''Ave_Weekday_Sleep''")
  case None
  then have "df (outlier_step s) = df s"
    by (simp add: outlier_step_absent)
  with None assms(3) show ?thesis
    by simp
next
  case (Some c)
  show ?thesis
  proof (cases "is_numeric c")
    case False
    with Some have "raised (outlier_step s) = Some TypeError"
      by (simp add: outlier_step_not_numeric)
    with assms(2) show ?thesis
      by simp
  next
    case True
    have "column (df (outlier_step s)) ''Ave_Weekday_Sleep'' =
        Some (map (clamp_cell (upper_limit (nums c))) c)"
      using outlier_step_numeric_df [OF Some True] column_set_column [OF Some] by simp
    with assms(3) have "c' = map (clamp_cell (upper_limit (nums c))) c"
      by simp
    with True show ?thesis
      by (simp add: is_numeric_clamp)
  qed
qed

section \<open>What the later steps read\<close>

text \<open>What a step adds to the page depends on the table alone.\<close>

lemma age_group_step_added:
  assumes "df s1 = df s2"
  shows "drop (length (out s1)) (out (age_group_step s1)) =
         drop (length (out s2)) (out (age_group_step s2))"
  using assms by (simp add: age_group_step_def Let_def split: option.splits sum.splits)

lemma less_sleep_step_added:
  assumes "df s1 = df s2"
  shows "drop (length (out s1)) (out (less_sleep_step s1)) =
         drop (length (out s2)) (out (less_sleep_step s2))"
  using assms by (simp add: less_sleep_step_def Let_def split: option.splits sum.splits)

lemma sample_survey_clamped:
  "df (outlier_step \<lparr>df = sample_survey, out = [], raised = None\<rparr>) =
     [(''Age'', sample_age),
      (''Ave_Weekday_Sleep'', map Num [93 / 16, 5, 5, 5, 5, 5, 5, 5, 5, 5, 5, 5, 5, 5, 5, 5])]"
proof -
  let ?a = "\<lparr>df = sample_survey, out = [], raised = None\<rparr>"
  have c: "column (df ?a) ''Ave_Weekday_Sleep'' = Some (map Num sample_sleep)"
    by (simp add: column_def sample_survey_def)
  have m: "map (\<lambda>v. min v (93 / 16)) sample_sleep = [93 / 16, 5, 5, 5, 5, 5, 5, 5, 5, 5, 5, 5, 5, 5, 5, 5]"
    by (simp add: sample_sleep_def)
  have "df (outlier_step ?a) =
      set_column ''Ave_Weekday_Sleep'' (map Num (map (\<lambda>v. min v (93 / 16)) sample_sleep)) (df ?a)"
    using outlier_step_numeric_df [OF c] by (simp add: clamp_column_comp sample_upper)
  then show ?thesis
    unfolding m by (simp add: set_column_def sample_survey_def)
qed

lemma sample_age_means:
  "groupby_mean sample_age (map Num sample_sleep) =
     Inr [(Str ''18-24'', Some 5), (Str ''25-34'', Some (41 / 8))]"
  by (simp add: groupby_mean_def groups_def sample_age_def sample_sleep_def is_numeric_def
      add_value_def cell_key_def group_mean_def)

lemma sample_age_means_clamped:
  "groupby_mean sample_age (map Num [93 / 16, 5, 5, 5, 5, 5, 5, 5, 5, 5, 5, 5, 5, 5, 5, 5]) =
     Inr [(Str ''18-24'', Some 5), (Str ''25-34'', Some (653 / 128))]"
  by (simp add: groupby_mean_def groups_def sample_age_def is_numeric_def
      add_value_def cell_key_def group_mean_def)

section \<open>Grouping\<close>

lemma cell_key_inj [simp]: "cell_key x = cell_key y \<longleftrightarrow> x = y"
  by (cases x; cases y) (simp_all add: cell_key_def)

lemma group_add_keys: "fst ` set (group_add k x gs) = insert k (fst ` set gs)"
  by (induction k x gs rule: group_add.induct) auto

lemma group_add_sorted:
  assumes "sorted_wrt (<) (map (cell_key \<circ> fst) gs)"
  shows "sorted_wrt (<) (map (cell_key \<circ> fst) (group_add k x gs))"
  using assms
proof (induction k x gs rule: group_add.induct)
  case (1 k x)
  then show ?case by simp
next
  case (2 k x k' a gs)
  show ?case
  proof (cases "k = k'")
    case True
    with 2 show ?thesis by simp
  next
    case ne: False
    show ?thesis
    proof (cases "cell_key k < cell_key k'")
      case True
      with 2 ne show ?thesis by auto
    next
      case False
      with ne have lt: "cell_key k' < cell_key k"
        by (simp add: not_less le_less)
      have "cell_key k' < cell_key (fst p)" if "p \<in> set (group_add k x gs)" for p
      proof -
        from that have "fst p \<in> insert k (fst ` set gs)"
          using group_add_keys [of k x gs] by blast
        with lt 2 show ?thesis by auto
      qed
      with 2 ne False show ?thesis by auto
    qed
  qed
qed

lemma group_add_lookup:
  assumes "sorted_wrt (<) (map (cell_key \<circ> fst) gs)"
  shows "map_of (group_add k x gs) k' =
     (if k' = k then Some (add_value x (case map_of gs k of None \<Rightarrow> (0, 0) | Some a \<Rightarrow> a))
      else map_of gs k')"
  using assms
proof (induction k x gs rule: group_add.induct)
  case (1 k x)
  then show ?case by simp
next
  case (2 k x k0 a gs)
  show ?case
  proof (cases "k = k0")
    case True
    then show ?thesis by simp
  next
    case ne: False
    show ?thesis
    proof (cases "cell_key k < cell_key k0")
      case True
      have "k \<notin> fst ` set gs"
      proof
        assume "k \<in> fst ` set gs"
        then have "cell_key k0 < cell_key k"
          using "2.prems" by auto
        with True show False by simp
      qed
      then have "map_of gs k = None"
        by (simp add: map_of_eq_None_iff)
      with True ne show ?thesis by simp
    next
      case False
      have srt: "sorted_wrt (<) (map (cell_key \<circ> fst) gs)"
        using "2.prems" by (simp add: comp_def)
      have ih: "map_of (group_add k x gs) k' =
          (if k' = k then Some (add_value x (case map_of gs k of None \<Rightarrow> (0, 0) | Some a \<Rightarrow> a))
           else map_of gs k')"
        by (rule "2.IH" [OF ne False srt])
      show ?thesis
        using ne False ih by (cases "k' = k") simp_all
    qed
  qed
qed

lemma groups_snoc:
  "groups (rows @ [(k, x)]) = (if k = NaN then groups rows else group_add k x (groups rows))"
  by (simp add: groups_def)

lemma groups_invariant:
  "sorted_wrt (<) (map (cell_key \<circ> fst) (groups rows))
   \<and> fst ` set (groups rows) = fst ` set rows - {NaN}
   \<and> (\<forall>k. k \<noteq> NaN \<longrightarrow> k \<in> fst ` set rows \<longrightarrow>
          map_of (groups rows) k =
            Some (foldl (\<lambda>a x. add_value x a) (0, 0) (map snd (filter (\<lambda>p. fst p = k) rows))))"
proof (induction rows rule: rev_induct)
  case Nil
  then show ?case by (simp add: groups_def)
next
  case (snoc p rows)
  obtain k x where p: "p = (k, x)" by (cases p)
  from snoc have srt: "sorted_wrt (<) (map (cell_key \<circ> fst) (groups rows))"
    and keys: "fst ` set (groups rows) = fst ` set rows - {NaN}"
    and look: "\<And>k. k \<noteq> NaN \<Longrightarrow> k \<in> fst ` set rows \<Longrightarrow>
          map_of (groups rows) k =
            Some (foldl (\<lambda>a x. add_value x a) (0, 0) (map snd (filter (\<lambda>p. fst p = k) rows)))"
    by blast+
  show ?case
  proof (cases "k = NaN")
    case True
    have g: "groups (rows @ [p]) = groups rows"
      by (simp add: p groups_snoc True)
    have a: "sorted_wrt (<) (map (cell_key \<circ> fst) (groups (rows @ [p])))"
      unfolding g by (rule srt)
    have b: "fst ` set (groups (rows @ [p])) = fst ` set (rows @ [p]) - {NaN}"
      unfolding g keys by (auto simp: p True)
    have c: "map_of (groups (rows @ [p])) k' =
        Some (foldl (\<lambda>a x. add_value x a) (0, 0) (map snd (filter (\<lambda>p. fst p = k') (rows @ [p]))))"
      if k': "k' \<noteq> NaN" "k' \<in> fst ` set (rows @ [p])" for k'
    proof -
      from k' have "k' \<in> fst ` set rows"
        by (auto simp: p True)
      then show ?thesis
        unfolding g using look [OF k'(1)] k'(1) by (simp add: p True)
    qed
    from a b c show ?thesis by blast
  next
    case False
    have g: "groups (rows @ [p]) = group_add k x (groups rows)"
      by (simp add: p groups_snoc False)
    have a: "sorted_wrt (<) (map (cell_key \<circ> fst) (groups (rows @ [p])))"
      unfolding g using srt by (rule group_add_sorted)
    have b: "fst ` set (groups (rows @ [p])) = fst ` set (rows @ [p]) - {NaN}"
      unfolding g group_add_keys keys using False by (auto simp: p)
    have c: "map_of (groups (rows @ [p])) k' =
        Some (foldl (\<lambda>a x. add_value x a) (0, 0) (map snd (filter (\<lambda>p. fst p = k') (rows @ [p]))))"
      if k': "k' \<noteq> NaN" "k' \<in> fst ` set (rows @ [p])" for k'
    proof (cases "k' = k")
      case same: True
      show ?thesis
      proof (cases "k \<in> fst ` set rows")
        case True
        then show ?thesis
          unfolding g group_add_lookup [OF srt] using look [OF False True] by (simp add: same p)
      next
        case notin: False
        then have "k \<notin> fst ` set (groups rows)"
          using keys by blast
        then have n: "map_of (groups rows) k = None"
          by (simp add: map_of_eq_None_iff)
        have "filter (\<lambda>p. fst p = k) rows = []"
          using notin by (auto simp: filter_empty_conv)
        then show ?thesis
          unfolding g group_add_lookup [OF srt] by (simp add: same p n)
      qed
    next
      case other: False
      with k' have "k' \<in> fst ` set rows"
        by (auto simp: p)
      then show ?thesis
        unfolding g group_add_lookup [OF srt] using look [OF k'(1)] other by (simp add: p)
    qed
    from a b c show ?thesis by blast
  qed
qed

lemma add_value_Nums:
  "foldl (\<lambda>a x. add_value x a) (s, n) (map Num vs) = (s + sum_list vs, n + length vs)"
  by (induction vs arbitrary: s n) (simp_all add: add_value_def)

lemma filter_zip_Num:
  "map snd (filter (\<lambda>p. fst p = k) (zip a (map Num xs))) =
     map Num (map snd (filter (\<lambda>p. fst p = k) (zip a xs)))"
  by (induction a xs rule: list_induct2') simp_all

lemma groupby_mean_numeric:
  assumes "length a = length xs" and "NaN \<notin> set a"
  shows "\<exists>means. groupby_mean a (map Num xs) = Inr means
       \<and> sorted_wrt (<) (map (cell_key \<circ> fst) means)
       \<and> distinct (map fst means)
       \<and> set (map fst means) = set a
       \<and> (\<forall>(k, m) \<in> set means.
            m = Some (sum_list (map snd (filter (\<lambda>p. fst p = k) (zip a xs)))
                      / real (length (filter (\<lambda>p. fst p = k) (zip a xs)))))"
proof -
  let ?rows = "zip a (map Num xs)"
  let ?G = "groups ?rows"
  let ?means = "map (\<lambda>(k, acc). (k, group_mean acc)) ?G"
  have r: "groupby_mean a (map Num xs) = Inr ?means"
    by (simp add: groupby_mean_def)
  have fsts: "map fst ?means = map fst ?G"
    by (induction ?G) auto
  have srt: "sorted_wrt (<) (map (cell_key \<circ> fst) ?G)"
    using groups_invariant [of ?rows] by blast
  have keys: "fst ` set ?G = fst ` set ?rows - {NaN}"
    using groups_invariant [of ?rows] by blast
  have look: "map_of ?G k =
      Some (foldl (\<lambda>a x. add_value x a) (0, 0) (map snd (filter (\<lambda>p. fst p = k) ?rows)))"
    if "k \<noteq> NaN" "k \<in> fst ` set ?rows" for k
    using groups_invariant [of ?rows] that by blast
  have "map fst ?rows = a"
    using assms(1) by simp
  then have rows_keys: "fst ` set ?rows = set a"
    by (metis set_map)
  have ks: "map (cell_key \<circ> fst) ?means = map (cell_key \<circ> fst) ?G"
    by (induction ?G) auto
  have s: "sorted_wrt (<) (map (cell_key \<circ> fst) ?means)"
    unfolding ks by (rule srt)
  have "distinct (map (cell_key \<circ> fst) ?G)"
    using srt strict_sorted_iff [of "map (cell_key \<circ> fst) ?G"] by blast
  then have "distinct (map cell_key (map fst ?G))"
    by (simp only: map_map)
  then have dG: "distinct (map fst ?G)"
    using distinct_map [of cell_key "map fst ?G"] by blast
  have d: "distinct (map fst ?means)"
    unfolding fsts by (rule dG)
  have "set (map fst ?G) = set a"
    using keys rows_keys assms(2) by simp
  then have k: "set (map fst ?means) = set a"
    unfolding fsts .
  have m: "m = Some (sum_list (map snd (filter (\<lambda>p. fst p = k) (zip a xs)))
                     / real (length (filter (\<lambda>p. fst p = k) (zip a xs))))"
    if "(k, m) \<in> set ?means" for k m
  proof -
    let ?vs = "map snd (filter (\<lambda>p. fst p = k) (zip a xs))"
    from that obtain acc where acc: "(k, acc) \<in> set ?G" and mm: "m = group_mean acc"
      by auto
    from acc have "k \<in> fst ` set ?G"
      by (metis fst_conv image_eqI)
    then have kin: "k \<in> fst ` set ?rows" and kn: "k \<noteq> NaN"
      unfolding keys by simp_all
    from acc dG have "map_of ?G k = Some acc"
      by simp
    with look [OF kn kin] have "acc = foldl (\<lambda>a x. add_value x a) (0, 0) (map Num ?vs)"
      by (simp add: filter_zip_Num)
    then have a: "acc = (sum_list ?vs, length ?vs)"
      unfolding add_value_Nums by simp
    from kin have "k \<in> fst ` set (zip a xs)"
      using assms(1) by (metis length_map map_fst_zip set_map)
    then have "filter (\<lambda>p. fst p = k) (zip a xs) \<noteq> []"
      by (auto simp: filter_empty_conv)
    then show ?thesis
      unfolding mm a by (simp add: group_mean_def)
  qed
  from r s d k m show ?thesis
    by blast
qed

section \<open>Cross-tabulation and the association step\<close>

lemma count_list_filter: "count_list xs y = length (filter (\<lambda>x. x = y) xs)"
  by (induction xs) simp_all

lemma labels_set [simp]: "set (labels c) = set c"
  by (simp add: labels_def)

lemma labels_distinct [simp]: "distinct (labels c)"
  by (simp add: labels_def)

lemma crosstab_counts:
  assumes "length a = length b" and "NaN \<notin> set a" and "NaN \<notin> set b"
  shows "crosstab a b =
     map (\<lambda>r. map (\<lambda>c. length (filter (\<lambda>p. p = (r, c)) (zip a b))) (labels b)) (labels a)"
proof -
  have "\<forall>p \<in> set (zip a b). (\<lambda>(x, y). x \<noteq> NaN \<and> y \<noteq> NaN) p"
    using assms(2,3) by (auto dest: set_zip_leftD set_zip_rightD)
  then have "filter (\<lambda>(x, y). x \<noteq> NaN \<and> y \<noteq> NaN) (zip a b) = zip a b"
    by (simp only: filter_True)
  then show ?thesis
    using assms(1) by (simp add: crosstab_def count_list_filter)
qed

lemma interaction_step_present:
  assumes "column (df s) st_col = Some a" and "column (df s) ''Interaction_Affects'' = Some b"
    and "chi2_p (crosstab a b) = Inr p"
  shows "interaction_step chi2_p st_col Day day s =
     s\<lparr>out := out s @
        [Subheader (''Impact of Screentime on Social Interaction ('' @ Day @ '')''),
         Write [AStr ''p-value is: '', ANum (Some p)],
         Write [AStr (if p < 0.05
            then ''There is a significant association between average '' @ day @ '' screentime and social interaction.''
            else ''There is no significant association between average '' @ day @ '' screentime and social interaction.'')]]\<rparr>"
  using assms by (simp add: interaction_step_def Let_def emit_def)

section \<open>The outlier clamp\<close>

text \<open>
  Claim C1. For every numeric column \<open>Ave_Weekday_Sleep\<close>, with the mean and the
  standard deviation computed over the values before the clamp, \<open>upper\<close> their sum
  with three deviations and \<open>lower\<close> the mean less three deviations: after the outlier
  step every value \<open>v\<close> of the column is \<open>min v upper\<close>. Values below \<open>lower\<close> lie
  below \<open>upper\<close> and are left as they are: the lower bound is never enforced. (The
  limits exist exactly when the column has two values or more; with fewer, pandas
  computes \<^verbatim>\<open>nan\<close> and the column is unchanged.)
\<close>

theorem outlier_clamp:
  assumes "column (df s) ''Ave_Weekday_Sleep'' = Some (map Num xs)"
  shows "column (df (outlier_step s)) ''Ave_Weekday_Sleep'' =
           Some (map Num (case upper_limit xs of None \<Rightarrow> xs | Some u \<Rightarrow> map (\<lambda>v. min v u) xs))
       \<and> (upper_limit xs = None \<longleftrightarrow> length xs < 2)
       \<and> (\<forall>u l. upper_limit xs = Some u \<and> lower_limit xs = Some l \<longrightarrow>
             l \<le> u \<and> (\<forall>v \<in> set xs. v < l \<longrightarrow> min v u = v))"
proof (intro conjI allI impI)
  have "df (outlier_step s) =
      set_column ''Ave_Weekday_Sleep'' (map (clamp_cell (upper_limit xs)) (map Num xs)) (df s)"
    using outlier_step_numeric_df [OF assms] by simp
  then show "column (df (outlier_step s)) ''Ave_Weekday_Sleep'' =
      Some (map Num (case upper_limit xs of None \<Rightarrow> xs | Some u \<Rightarrow> map (\<lambda>v. min v u) xs))"
    using column_set_column [OF assms] by (simp add: clamp_column_comp)
next
  show "upper_limit xs = None \<longleftrightarrow> length xs < 2"
    by (rule upper_limit_None_iff)
next
  fix u l assume h: "upper_limit xs = Some u \<and> lower_limit xs = Some l"
  then show le: "l \<le> u"
    using lower_le_upper by blast
  show "\<forall>v \<in> set xs. v < l \<longrightarrow> min v u = v"
    using le by auto
qed

theorem outlier_clamp_witness:
  "column sample_survey ''Ave_Weekday_Sleep'' = Some (map Num sample_sleep)
   \<and> upper_limit sample_sleep = Some (93 / 16)
   \<and> column (df (outlier_step \<lparr>df = sample_survey, out = [], raised = None\<rparr>)) ''Ave_Weekday_Sleep'' =
       Some (map Num [93 / 16, 5, 5, 5, 5, 5, 5, 5, 5, 5, 5, 5, 5, 5, 5, 5])"
proof -
  let ?a = "\<lparr>df = sample_survey, out = [], raised = None\<rparr>"
  have c: "column (df ?a) ''Ave_Weekday_Sleep'' = Some (map Num sample_sleep)"
    by (simp add: column_def sample_survey_def)
  have m: "map (\<lambda>v. min v (93 / 16)) sample_sleep = [93 / 16, 5, 5, 5, 5, 5, 5, 5, 5, 5, 5, 5, 5, 5, 5, 5]"
    by (simp add: sample_sleep_def)
  from outlier_clamp [OF c]
  have "column (df (outlier_step ?a)) ''Ave_Weekday_Sleep'' =
      Some (map Num (case upper_limit sample_sleep of None \<Rightarrow> sample_sleep
                     | Some u \<Rightarrow> map (\<lambda>v. min v u) sample_sleep))"
    by (rule conjunct1)
  then show ?thesis
    using c m sample_upper by simp
qed

section \<open>The clamp reaches the later steps\<close>

text \<open>
  Claim C2 says that no step after the clamp re-reads \<open>Ave_Weekday_Sleep\<close>, so that the
  grouped mean and the filter on six hours give the same results whether or not the clamp
  ran. Both read the column from the table the clamp has written (lines 111 and 125). On
  the sample of sixteen respondents the 6 becomes 5.8125: the mean of its age group is
  653/128 after the outlier step and 41/8 on the table as loaded, and the filtered rows
  start with that respondent after the outlier step and do not contain it before.
\<close>

theorem clamp_reaches_later_steps_counterexample:
  "last (out (age_group_step (outlier_step \<lparr>df = sample_survey, out = [], raised = None\<rparr>))) =
     Pyplot (Bar [(Str ''18-24'', Some 5), (Str ''25-34'', Some (653 / 128))])
   \<and> last (out (age_group_step \<lparr>df = sample_survey, out = [], raised = None\<rparr>)) =
     Pyplot (Bar [(Str ''18-24'', Some 5), (Str ''25-34'', Some (41 / 8))])
   \<and> hd (tl (drop 9 (out (less_sleep_step (outlier_step \<lparr>df = sample_survey, out = [], raised = None\<rparr>))))) =
     Write [AFrame [(''Age'', [Str ''25-34'', Str ''25-34'', Str ''25-34'', Str ''25-34'', Str ''25-34'']),
                    (''Ave_Weekday_Sleep'', [Num (93 / 16), Num 5, Num 5, Num 5, Num 5])]]
   \<and> hd (tl (out (less_sleep_step \<lparr>df = sample_survey, out = [], raised = None\<rparr>))) =
     Write [AFrame [(''Age'', [Str ''25-34'', Str ''25-34'', Str ''25-34'', Str ''25-34'', Str ''25-34'']),
                    (''Ave_Weekday_Sleep'', [Num 5, Num 5, Num 5, Num 5, Num 5])]]"
proof -
  let ?a = "\<lparr>df = sample_survey, out = [], raised = None\<rparr>"
  let ?clamped = "[(''Age'', sample_age),
      (''Ave_Weekday_Sleep'', map Num [93 / 16, 5, 5, 5, 5, 5, 5, 5, 5, 5, 5, 5, 5, 5, 5, 5])]"
  let ?b = "\<lparr>df = ?clamped, out = [], raised = None\<rparr>"
  have c: "column (df ?a) ''Ave_Weekday_Sleep'' = Some (map Num sample_sleep)"
    by (simp add: column_def sample_survey_def)
  have len: "length (out (outlier_step ?a)) = 9"
    using outlier_step_numeric_out [OF c] by simp
  have dfb: "df (outlier_step ?a) = df ?b"
    using sample_survey_clamped by simp
  have g1: "out (age_group_step ?b) =
      [Subheader ''Average Weekday Sleep by Age Group'',
       Pyplot (Bar [(Str ''18-24'', Some 5), (Str ''25-34'', Some (653 / 128))])]"
    using sample_age_means_clamped by (simp add: age_group_step_def Let_def column_def)
  have "drop 9 (out (age_group_step (outlier_step ?a))) = out (age_group_step ?b)"
    using age_group_step_added [OF dfb] len by simp
  then have "last (drop 9 (out (age_group_step (outlier_step ?a)))) =
      Pyplot (Bar [(Str ''18-24'', Some 5), (Str ''25-34'', Some (653 / 128))])"
    using g1 by simp
  moreover have "length (out (age_group_step (outlier_step ?a))) > 9"
    using \<open>drop 9 (out (age_group_step (outlier_step ?a))) = out (age_group_step ?b)\<close> g1
    by (metis drop_eq_Nil list.distinct(1) not_le_imp_less)
  ultimately have r1: "last (out (age_group_step (outlier_step ?a))) =
      Pyplot (Bar [(Str ''18-24'', Some 5), (Str ''25-34'', Some (653 / 128))])"
    by (simp add: last_drop)
  have r2: "last (out (age_group_step ?a)) =
      Pyplot (Bar [(Str ''18-24'', Some 5), (Str ''25-34'', Some (41 / 8))])"
    using sample_age_means by (simp add: age_group_step_def Let_def column_def sample_survey_def)
  have f1: "hd (tl (out (less_sleep_step ?b))) =
     Write [AFrame [(''Age'', [Str ''25-34'', Str ''25-34'', Str ''25-34'', Str ''25-34'', Str ''25-34'']),
                    (''Ave_Weekday_Sleep'', [Num (93 / 16), Num 5, Num 5, Num 5, Num 5])]]"
    by (simp add: less_sleep_step_def Let_def column_def series_lt_def is_numeric_def
        select_rows_def head_def project_def sample_age_def)
  have "drop 9 (out (less_sleep_step (outlier_step ?a))) = out (less_sleep_step ?b)"
    using less_sleep_step_added [OF dfb] len by simp
  with f1 have r3: "hd (tl (drop 9 (out (less_sleep_step (outlier_step ?a))))) =
     Write [AFrame [(''Age'', [Str ''25-34'', Str ''25-34'', Str ''25-34'', Str ''25-34'', Str ''25-34'']),
                    (''Ave_Weekday_Sleep'', [Num (93 / 16), Num 5, Num 5, Num 5, Num 5])]]"
    by simp
  have r4: "hd (tl (out (less_sleep_step ?a))) =
     Write [AFrame [(''Age'', [Str ''25-34'', Str ''25-34'', Str ''25-34'', Str ''25-34'', Str ''25-34'']),
                    (''Ave_Weekday_Sleep'', [Num 5, Num 5, Num 5, Num 5, Num 5])]]"
    by (simp add: less_sleep_step_def Let_def column_def series_lt_def is_numeric_def
        select_rows_def head_def project_def sample_age_def sample_survey_def sample_sleep_def)
  from r1 r2 r3 r4 show ?thesis
    by (intro conjI)
qed

text \<open>
  Claim C2 as amended. The grouped-mean step and the filter on six hours read
  \<open>Ave_Weekday_Sleep\<close> from the table after the in-place clamp, so they work on the
  clamped values. When no value of a numeric sleep column reaches the upper limit (or
  the limit is \<^verbatim>\<open>nan\<close>) and the column names are distinct, the outlier step leaves
  the table as it was, and then both steps add to the page exactly what they add when the
  clamp has not run.
\<close>

theorem clamp_reaches_later_steps:
  assumes "column (df s) ''Ave_Weekday_Sleep'' = Some (map Num xs)"
  shows "column (df (outlier_step s)) ''Ave_Weekday_Sleep'' =
           Some (map (clamp_cell (upper_limit xs)) (map Num xs))
       \<and> (distinct (columns (df s)) \<and> (\<forall>v \<in> set xs. \<forall>u. upper_limit xs = Some u \<longrightarrow> v < u) \<longrightarrow>
            df (outlier_step s) = df s
            \<and> drop (length (out (outlier_step s))) (out (age_group_step (outlier_step s))) =
              drop (length (out s)) (out (age_group_step s))
            \<and> drop (length (out (outlier_step s))) (out (less_sleep_step (outlier_step s))) =
              drop (length (out s)) (out (less_sleep_step s)))"
proof (intro conjI impI)
  have d: "df (outlier_step s) =
      set_column ''Ave_Weekday_Sleep'' (map (clamp_cell (upper_limit xs)) (map Num xs)) (df s)"
    using outlier_step_numeric_df [OF assms] by simp
  then show "column (df (outlier_step s)) ''Ave_Weekday_Sleep'' =
      Some (map (clamp_cell (upper_limit xs)) (map Num xs))"
    using column_set_column [OF assms] by simp
  assume h: "distinct (columns (df s)) \<and> (\<forall>v \<in> set xs. \<forall>u. upper_limit xs = Some u \<longrightarrow> v < u)"
  have "clamp_cell (upper_limit xs) (Num v) = Num v" if "v \<in> set xs" for v
    using that h by (cases "upper_limit xs") (auto simp: clamp_cell_def)
  then have eq: "map (clamp_cell (upper_limit xs)) (map Num xs) = map Num xs"
    by simp
  have "df (outlier_step s) = set_column ''Ave_Weekday_Sleep'' (map Num xs) (df s)"
    unfolding d eq by (rule refl)
  then show same: "df (outlier_step s) = df s"
    using h assms by (simp add: set_column_same)
  show "drop (length (out (outlier_step s))) (out (age_group_step (outlier_step s))) =
      drop (length (out s)) (out (age_group_step s))"
    using same by (rule age_group_step_added)
  show "drop (length (out (outlier_step s))) (out (less_sleep_step (outlier_step s))) =
      drop (length (out s)) (out (less_sleep_step s))"
    using same by (rule less_sleep_step_added)
qed

theorem clamp_reaches_later_steps_witness:
  "column sample_regular ''Ave_Weekday_Sleep'' = Some (map Num [6, 7, 8])
   \<and> upper_limit [6, 7, 8] = Some 10
   \<and> distinct (columns sample_regular)
   \<and> df (outlier_step \<lparr>df = sample_regular, out = [], raised = None\<rparr>) = sample_regular
   \<and> drop (length (out (outlier_step \<lparr>df = sample_regular, out = [], raised = None\<rparr>)))
        (out (age_group_step (outlier_step \<lparr>df = sample_regular, out = [], raised = None\<rparr>))) =
      out (age_group_step \<lparr>df = sample_regular, out = [], raised = None\<rparr>)"
proof -
  let ?a = "\<lparr>df = sample_regular, out = [], raised = None\<rparr>"
  have c: "column (df ?a) ''Ave_Weekday_Sleep'' = Some (map Num [6, 7, 8])"
    by (simp add: column_def sample_regular_def)
  have d: "distinct (columns (df ?a))"
    by (simp add: columns_def sample_regular_def)
  have b: "\<forall>v \<in> set [6, 7, 8 :: real]. \<forall>u. upper_limit [6, 7, 8] = Some u \<longrightarrow> v < u"
    by (simp add: regular_upper)
  from clamp_reaches_later_steps [OF c] d b
  have "df (outlier_step ?a) = df ?a
      \<and> drop (length (out (outlier_step ?a))) (out (age_group_step (outlier_step ?a))) =
        drop (length (out ?a)) (out (age_group_step ?a))
      \<and> drop (length (out (outlier_step ?a))) (out (less_sleep_step (outlier_step ?a))) =
        drop (length (out ?a)) (out (less_sleep_step ?a))"
    by blast
  then show ?thesis
    using c d regular_upper by simp
qed

section \<open>The loader leaves no missing marker\<close>

text \<open>
  Claim C3. After the Loader runs, the count of missing markers is zero for every column
  of the resulting table: every cell that was missing in the input holds the string
  \<open>''0''\<close> (every other cell is kept), so the Null Values step prints 0 for every
  column.
\<close>

theorem loader_leaves_no_missing_marker:
  assumes "load_data (Inr t0) = Inr t"
  shows "(\<forall>(n, c) \<in> set t. NaN \<notin> set c)
       \<and> map snd t = map (\<lambda>(n, c). map (\<lambda>x. if x = NaN then Str ''0'' else x) c)
                        (filter (\<lambda>(m, c). m \<noteq> ''Timestamp'') t0)
       \<and> isnull_sum t = map (\<lambda>n. (n, 0)) (columns t)
       \<and> (\<forall>s. df s = t \<longrightarrow>
            out (null_values_step s) =
              out s @ [Subheader ''Null Values'', Write [ACounts (map (\<lambda>n. (n, 0)) (columns t))]])"
proof -
  let ?t1 = "filter (\<lambda>(m, c). m \<noteq> ''Timestamp'') t0"
  have t: "t = replace_nan (rename_columns column_names ?t1)"
    using load_data_Inr(2) [OF assms] .
  have a: "\<forall>(n, c) \<in> set t. NaN \<notin> set c"
    unfolding t using replace_nan_no_NaN by blast
  have b: "map snd t = map (\<lambda>(n, c). map (\<lambda>x. if x = NaN then Str ''0'' else x) c) ?t1"
    unfolding t by (induction ?t1) (auto simp: replace_nan_def rename_columns_def replace_cell_eq)
  have c: "isnull_sum t = map (\<lambda>n. (n, 0)) (columns t)"
    unfolding t by (rule isnull_sum_replace_nan)
  have d: "out (null_values_step s) =
      out s @ [Subheader ''Null Values'', Write [ACounts (map (\<lambda>n. (n, 0)) (columns t))]]"
    if "df s = t" for s
    using that c by (simp add: null_values_step_def Let_def)
  from a b c d show ?thesis by blast
qed

theorem loader_leaves_no_missing_marker_witness:
  "load_data (Inr sample_csv) = Inr sample_table
   \<and> isnull_sum sample_table = [(''Age'', 0), (''Ave_Weekday_Sleep'', 0), (''Gender'', 0)]
   \<and> out (null_values_step \<lparr>df = sample_table, out = [], raised = None\<rparr>) =
       [Subheader ''Null Values'',
        Write [ACounts [(''Age'', 0), (''Ave_Weekday_Sleep'', 0), (''Gender'', 0)]]]"
proof -
  have h: "load_data (Inr sample_csv) = Inr sample_table"
    by (rule sample_loaded)
  have cols: "columns sample_table = [''Age'', ''Ave_Weekday_Sleep'', ''Gender'']"
    by (simp add: columns_def sample_table_def)
  from loader_leaves_no_missing_marker [OF h]
  have "isnull_sum sample_table = map (\<lambda>n. (n, 0)) (columns sample_table)"
    and "\<forall>s. df s = sample_table \<longrightarrow>
            out (null_values_step s) =
              out s @ [Subheader ''Null Values'',
                       Write [ACounts (map (\<lambda>n. (n, 0)) (columns sample_table))]]"
    by blast+
  then show ?thesis
    using h cols by simp
qed

section \<open>Guards on missing columns\<close>

text \<open>
  Claim C4 says that every report step checks for its columns and that, whenever
  \<open>Health_Effects\<close> is absent, the projection and the scatter plot of the filtered
  sub-report emit their fallback texts. The script nests both inside the guard on
  \<open>Ave_Weekday_Sleep\<close> (lines 124, 129 and 136): on a table that has neither column
  the filtered sub-report writes its title and the text for \<open>Ave_Weekday_Sleep\<close>, and
  neither text about \<open>Health_Effects\<close>.
\<close>

theorem health_fallback_counterexample:
  "column sample_short_table ''Health_Effects'' = None
   \<and> out (less_sleep_step \<lparr>df = sample_short_table, out = [], raised = None\<rparr>) =
       [Subheader ''Respondents with Less than 6 Hours of Weekday Sleep'',
        Write [AStr ''Column 'Ave_Weekday_Sleep' does not exist in the DataFrame.'']]"
  by (simp add: less_sleep_step_def Let_def column_def sample_short_table_def)

text \<open>
  Claim C4 as amended. Each guarded step (outlier, age groups, filtered sub-report, the
  two association tests), on a table that lacks a column it requires, appends its
  section title and its fixed text to the page and changes nothing else: no exception,
  the table as it was. When \<open>Health_Effects\<close> is absent and \<open>Ave_Weekday_Sleep\<close> is
  present (and numeric, as it is whenever a run gets this far), the filtered sub-report
  writes the filtered rows, then the fallback text of the projection and the fallback
  text of the scatter plot, and does not throw.
\<close>

theorem guarded_steps_skip:
  "(column (df s) ''Ave_Weekday_Sleep'' = None \<longrightarrow>
      outlier_step s =
        s\<lparr>out := out s @
          [Subheader ''Outlier Analysis - Weekday Sleep'',
           Write [AStr ''Columns in DataFrame:'', ANames (columns (df s))],
           Write [AStr ''Column 'Ave_Weekday_Sleep' does not exist in the DataFrame.'']]\<rparr>
      \<and> less_sleep_step s =
        s\<lparr>out := out s @
          [Subheader ''Respondents with Less than 6 Hours of Weekday Sleep'',
           Write [AStr ''Column 'Ave_Weekday_Sleep' does not exist in the DataFrame.'']]\<rparr>)
   \<and> (column (df s) ''Age'' = None \<or> column (df s) ''Ave_Weekday_Sleep'' = None \<longrightarrow>
      age_group_step s =
        s\<lparr>out := out s @
          [Subheader ''Average Weekday Sleep by Age Group'',
           Write [AStr ''Columns 'Age' and/or 'Ave_Weekday_Sleep' do not exist in the DataFrame.'']]\<rparr>)
   \<and> (column (df s) ''ST_Weekday'' = None \<or> column (df s) ''Interaction_Affects'' = None \<longrightarrow>
      weekday_step chi2_p s =
        s\<lparr>out := out s @
          [Subheader ''Impact of Screentime on Social Interaction (Weekday)'',
           Write [AStr ''Columns 'ST_Weekday' and/or 'Interaction_Affects' do not exist in the DataFrame.'']]\<rparr>)
   \<and> (column (df s) ''ST_Weekend'' = None \<or> column (df s) ''Interaction_Affects'' = None \<longrightarrow>
      weekend_step chi2_p s =
        s\<lparr>out := out s @
          [Subheader ''Impact of Screentime on Social Interaction (Weekend)'',
           Write [AStr ''Columns 'ST_Weekend' and/or 'Interaction_Affects' do not exist in the DataFrame.'']]\<rparr>)
   \<and> (column (df s) ''Health_Effects'' = None \<and> column (df s) ''Ave_Weekday_Sleep'' = Some c
        \<and> is_numeric c \<longrightarrow>
      less_sleep_step s =
        s\<lparr>out := out s @
          [Subheader ''Respondents with Less than 6 Hours of Weekday Sleep'',
           Write [AFrame (head 5 (select_rows
              (map (\<lambda>x. case x of Num v \<Rightarrow> v < 6 | Str s \<Rightarrow> False | NaN \<Rightarrow> False) c) (df s)))],
           Write [AStr ''Health issues, eyewear use, and social interaction of such respondents''],
           Write [AStr ''One or more of the columns 'Health_Effects', 'Eyewear_User', 'Interaction_Affects' do not exist in the DataFrame.''],
           Subheader ''Impact of Sleep Time on Health Issues'',
           Write [AStr ''Column 'Health_Effects' does not exist in the DataFrame.'']]\<rparr>)
   \<and> (raised s = None \<and> raised (outlier_step s) = None
        \<and> column (df (age_group_step (outlier_step s))) ''Ave_Weekday_Sleep'' = Some c \<longrightarrow>
      is_numeric c)"
proof -
  have a: "column (df s) ''Ave_Weekday_Sleep'' = None \<longrightarrow>
      outlier_step s =
        s\<lparr>out := out s @
          [Subheader ''Outlier Analysis - Weekday Sleep'',
           Write [AStr ''Columns in DataFrame:'', ANames (columns (df s))],
           Write [AStr ''Column 'Ave_Weekday_Sleep' does not exist in the DataFrame.'']]\<rparr>
      \<and> less_sleep_step s =
        s\<lparr>out := out s @
          [Subheader ''Respondents with Less than 6 Hours of Weekday Sleep'',
           Write [AStr ''Column 'Ave_Weekday_Sleep' does not exist in the DataFrame.'']]\<rparr>"
    using outlier_step_absent less_sleep_step_absent by blast
  have b: "column (df s) ''Age'' = None \<or> column (df s) ''Ave_Weekday_Sleep'' = None \<longrightarrow>
      age_group_step s =
        s\<lparr>out := out s @
          [Subheader ''Average Weekday Sleep by Age Group'',
           Write [AStr ''Columns 'Age' and/or 'Ave_Weekday_Sleep' do not exist in the DataFrame.'']]\<rparr>"
    using age_group_step_absent by blast
  have c: "column (df s) ''ST_Weekday'' = None \<or> column (df s) ''Interaction_Affects'' = None \<longrightarrow>
      weekday_step chi2_p s =
        s\<lparr>out := out s @
          [Subheader ''Impact of Screentime on Social Interaction (Weekday)'',
           Write [AStr ''Columns 'ST_Weekday' and/or 'Interaction_Affects' do not exist in the DataFrame.'']]\<rparr>"
    using interaction_step_absent [of s "''ST_Weekday''" chi2_p "''Weekday''" "''weekday''"]
    by (simp add: weekday_step_def)
  have d: "column (df s) ''ST_Weekend'' = None \<or> column (df s) ''Interaction_Affects'' = None \<longrightarrow>
      weekend_step chi2_p s =
        s\<lparr>out := out s @
          [Subheader ''Impact of Screentime on Social Interaction (Weekend)'',
           Write [AStr ''Columns 'ST_Weekend' and/or 'Interaction_Affects' do not exist in the DataFrame.'']]\<rparr>"
    using interaction_step_absent [of s "''ST_Weekend''" chi2_p "''Weekend''" "''weekend''"]
    by (simp add: weekend_step_def)
  have e: "column (df s) ''Health_Effects'' = None \<and> column (df s) ''Ave_Weekday_Sleep'' = Some c
        \<and> is_numeric c \<longrightarrow>
      less_sleep_step s =
        s\<lparr>out := out s @
          [Subheader ''Respondents with Less than 6 Hours of Weekday Sleep'',
           Write [AFrame (head 5 (select_rows
              (map (\<lambda>x. case x of Num v \<Rightarrow> v < 6 | Str s \<Rightarrow> False | NaN \<Rightarrow> False) c) (df s)))],
           Write [AStr ''Health issues, eyewear use, and social interaction of such respondents''],
           Write [AStr ''One or more of the columns 'Health_Effects', 'Eyewear_User', 'Interaction_Affects' do not exist in the DataFrame.''],
           Subheader ''Impact of Sleep Time on Health Issues'',
           Write [AStr ''Column 'Health_Effects' does not exist in the DataFrame.'']]\<rparr>"
    using less_sleep_step_no_health by blast
  have f: "raised s = None \<and> raised (outlier_step s) = None
        \<and> column (df (age_group_step (outlier_step s))) ''Ave_Weekday_Sleep'' = Some c \<longrightarrow>
      is_numeric c"
    using numeric_past_outlier_step [of s c] by simp
  from a b c d e f show ?thesis
    by (intro conjI)
qed

theorem guarded_steps_skip_witness:
  "column sample_short_table ''Ave_Weekday_Sleep'' = None
   \<and> column sample_short_table ''ST_Weekday'' = None
   \<and> column sample_short_table ''ST_Weekend'' = None
   \<and> out (outlier_step \<lparr>df = sample_short_table, out = [], raised = None\<rparr>) =
       [Subheader ''Outlier Analysis - Weekday Sleep'',
        Write [AStr ''Columns in DataFrame:'', ANames [''Age'', ''Gender'']],
        Write [AStr ''Column 'Ave_Weekday_Sleep' does not exist in the DataFrame.'']]
   \<and> raised (age_group_step \<lparr>df = sample_short_table, out = [], raised = None\<rparr>) = None
   \<and> raised (weekday_step (\<lambda>t. Inr 1) \<lparr>df = sample_short_table, out = [], raised = None\<rparr>) = None
   \<and> raised (weekend_step (\<lambda>t. Inr 1) \<lparr>df = sample_short_table, out = [], raised = None\<rparr>) = None
   \<and> column sample_sleep_only ''Health_Effects'' = None
   \<and> column sample_sleep_only ''Ave_Weekday_Sleep'' = Some [Num 5, Num 7]
   \<and> is_numeric [Num 5, Num 7]
   \<and> less_sleep_step \<lparr>df = sample_sleep_only, out = [], raised = None\<rparr> =
       \<lparr>df = sample_sleep_only,
        out =
          [Subheader ''Respondents with Less than 6 Hours of Weekday Sleep'',
           Write [AFrame [(''Ave_Weekday_Sleep'', [Num 5])]],
           Write [AStr ''Health issues, eyewear use, and social interaction of such respondents''],
           Write [AStr ''One or more of the columns 'Health_Effects', 'Eyewear_User', 'Interaction_Affects' do not exist in the DataFrame.''],
           Subheader ''Impact of Sleep Time on Health Issues'',
           Write [AStr ''Column 'Health_Effects' does not exist in the DataFrame.'']],
        raised = None\<rparr>
   \<and> raised (outlier_step \<lparr>df = sample_sleep_only, out = [], raised = None\<rparr>) = None
   \<and> column (df (age_group_step (outlier_step \<lparr>df = sample_sleep_only, out = [], raised = None\<rparr>)))
        ''Ave_Weekday_Sleep'' =
       Some (map (clamp_cell (upper_limit [5, 7])) [Num 5, Num 7])
   \<and> is_numeric (map (clamp_cell (upper_limit [5, 7])) [Num 5, Num 7])"
proof -
  let ?a = "\<lparr>df = sample_short_table, out = [], raised = None\<rparr>"
  let ?b = "\<lparr>df = sample_sleep_only, out = [], raised = None\<rparr>"
  have ha: "column (df ?a) ''Ave_Weekday_Sleep'' = None" "column (df ?a) ''ST_Weekday'' = None"
    "column (df ?a) ''ST_Weekend'' = None"
    by (simp_all add: column_def sample_short_table_def)
  have hb: "column (df ?b) ''Health_Effects'' = None"
    "column (df ?b) ''Ave_Weekday_Sleep'' = Some [Num 5, Num 7]" "is_numeric [Num 5, Num 7]"
    by (simp_all add: column_def sample_sleep_only_def is_numeric_def)
  have cols: "columns sample_short_table = [''Age'', ''Gender'']"
    by (simp add: columns_def sample_short_table_def)
  have sel: "head 5 (select_rows [True, False] sample_sleep_only) = [(''Ave_Weekday_Sleep'', [Num 5])]"
    by (simp add: head_def select_rows_def sample_sleep_only_def)
  have r: "raised (outlier_step ?b) = None"
    using outlier_step_numeric_raised [OF hb(2,3)] by simp
  have k: "column (df (age_group_step (outlier_step ?b))) ''Ave_Weekday_Sleep'' =
      Some (map (clamp_cell (upper_limit [5, 7])) [Num 5, Num 7])"
    using outlier_step_numeric_df [OF hb(2,3)] column_set_column [OF hb(2)]
    by (simp add: nums_def)
  have n: "is_numeric (map (clamp_cell (upper_limit [5, 7])) [Num 5, Num 7])"
    using guarded_steps_skip
      [of ?b "\<lambda>t. Inr 1" "map (clamp_cell (upper_limit [5, 7])) [Num 5, Num 7]"] r k
    by simp
  have "column sample_short_table ''Ave_Weekday_Sleep'' = None
   \<and> column sample_short_table ''ST_Weekday'' = None
   \<and> column sample_short_table ''ST_Weekend'' = None
   \<and> out (outlier_step \<lparr>df = sample_short_table, out = [], raised = None\<rparr>) =
       [Subheader ''Outlier Analysis - Weekday Sleep'',
        Write [AStr ''Columns in DataFrame:'', ANames [''Age'', ''Gender'']],
        Write [AStr ''Column 'Ave_Weekday_Sleep' does not exist in the DataFrame.'']]
   \<and> raised (age_group_step \<lparr>df = sample_short_table, out = [], raised = None\<rparr>) = None
   \<and> raised (weekday_step (\<lambda>t. Inr 1) \<lparr>df = sample_short_table, out = [], raised = None\<rparr>) = None
   \<and> raised (weekend_step (\<lambda>t. Inr 1) \<lparr>df = sample_short_table, out = [], raised = None\<rparr>) = None
   \<and> column sample_sleep_only ''Health_Effects'' = None
   \<and> column sample_sleep_only ''Ave_Weekday_Sleep'' = Some [Num 5, Num 7]
   \<and> is_numeric [Num 5, Num 7]
   \<and> less_sleep_step \<lparr>df = sample_sleep_only, out = [], raised = None\<rparr> =
       \<lparr>df = sample_sleep_only,
        out =
          [Subheader ''Respondents with Less than 6 Hours of Weekday Sleep'',
           Write [AFrame [(''Ave_Weekday_Sleep'', [Num 5])]],
           Write [AStr ''Health issues, eyewear use, and social interaction of such respondents''],
           Write [AStr ''One or more of the columns 'Health_Effects', 'Eyewear_User', 'Interaction_Affects' do not exist in the DataFrame.''],
           Subheader ''Impact of Sleep Time on Health Issues'',
           Write [AStr ''Column 'Health_Effects' does not exist in the DataFrame.'']],
        raised = None\<rparr>"
    using ha hb cols sel
      guarded_steps_skip [of ?a "\<lambda>t. Inr 1"]
      guarded_steps_skip [of ?b "\<lambda>t. Inr 1" "[Num 5, Num 7]"]
    by simp
  with r k n show ?thesis
    by simp
qed

section \<open>The association tests\<close>

text \<open>
  Claim C5. For each of the two tests (\<open>ST_Weekday\<close> and \<open>ST_Weekend\<close>, each against
  \<open>Interaction_Affects\<close>), when both columns exist the step builds the contingency
  table of the joint counts of the two columns' values, writes the p-value the chi-square
  routine returns for that table, and writes that the association is significant exactly
  when \<open>p < 0.05\<close> (strictly, against the constant 0.05), and that it is not
  otherwise.
\<close>

theorem association_tests:
  assumes "column (df s) ''Interaction_Affects'' = Some b"
  shows "(\<forall>a p. column (df s) ''ST_Weekday'' = Some a \<and> chi2_p (crosstab a b) = Inr p \<longrightarrow>
            weekday_step chi2_p s =
              s\<lparr>out := out s @
                [Subheader ''Impact of Screentime on Social Interaction (Weekday)'',
                 Write [AStr ''p-value is: '', ANum (Some p)],
                 Write [AStr (if p < 0.05
                    then ''There is a significant association between average weekday screentime and social interaction.''
                    else ''There is no significant association between average weekday screentime and social interaction.'')]]\<rparr>)
       \<and> (\<forall>a p. column (df s) ''ST_Weekend'' = Some a \<and> chi2_p (crosstab a b) = Inr p \<longrightarrow>
            weekend_step chi2_p s =
              s\<lparr>out := out s @
                [Subheader ''Impact of Screentime on Social Interaction (Weekend)'',
                 Write [AStr ''p-value is: '', ANum (Some p)],
                 Write [AStr (if p < 0.05
                    then ''There is a significant association between average weekend screentime and social interaction.''
                    else ''There is no significant association between average weekend screentime and social interaction.'')]]\<rparr>)
       \<and> (\<forall>a. length a = length b \<and> NaN \<notin> set a \<and> NaN \<notin> set b \<longrightarrow>
            crosstab a b =
              map (\<lambda>r. map (\<lambda>c. length (filter (\<lambda>p. p = (r, c)) (zip a b))) (labels b)) (labels a)
            \<and> set (labels a) = set a \<and> distinct (labels a)
            \<and> set (labels b) = set b \<and> distinct (labels b))"
proof (intro conjI allI impI)
  fix a p
  assume "column (df s) ''ST_Weekday'' = Some a \<and> chi2_p (crosstab a b) = Inr p"
  then have "column (df s) ''ST_Weekday'' = Some a" and "chi2_p (crosstab a b) = Inr p"
    by simp_all
  with assms interaction_step_present
    [where s = s and st_col = "''ST_Weekday''" and a = a and b = b and chi2_p = chi2_p and p = p
       and Day = "''Weekday''" and day = "''weekday''"]
  show "weekday_step chi2_p s =
      s\<lparr>out := out s @
        [Subheader ''Impact of Screentime on Social Interaction (Weekday)'',
         Write [AStr ''p-value is: '', ANum (Some p)],
         Write [AStr (if p < 0.05
            then ''There is a significant association between average weekday screentime and social interaction.''
            else ''There is no significant association between average weekday screentime and social interaction.'')]]\<rparr>"
    by (simp add: weekday_step_def)
next
  fix a p
  assume "column (df s) ''ST_Weekend'' = Some a \<and> chi2_p (crosstab a b) = Inr p"
  then have "column (df s) ''ST_Weekend'' = Some a" and "chi2_p (crosstab a b) = Inr p"
    by simp_all
  with assms interaction_step_present
    [where s = s and st_col = "''ST_Weekend''" and a = a and b = b and chi2_p = chi2_p and p = p
       and Day = "''Weekend''" and day = "''weekend''"]
  show "weekend_step chi2_p s =
      s\<lparr>out := out s @
        [Subheader ''Impact of Screentime on Social Interaction (Weekend)'',
         Write [AStr ''p-value is: '', ANum (Some p)],
         Write [AStr (if p < 0.05
            then ''There is a significant association between average weekend screentime and social interaction.''
            else ''There is no significant association between average weekend screentime and social interaction.'')]]\<rparr>"
    by (simp add: weekend_step_def)
next
  fix a :: "cell list"
  assume "length a = length b \<and> NaN \<notin> set a \<and> NaN \<notin> set b"
  then show "crosstab a b =
      map (\<lambda>r. map (\<lambda>c. length (filter (\<lambda>p. p = (r, c)) (zip a b))) (labels b)) (labels a)"
    using crosstab_counts by blast
qed simp_all

theorem association_tests_witness:
  "column sample_interaction ''Interaction_Affects'' = Some [Str ''Yes'', Str ''No'', Str ''Yes'']
   \<and> column sample_interaction ''ST_Weekday'' = Some [Str ''1-2'', Str ''3-4'', Str ''1-2'']
   \<and> crosstab [Str ''1-2'', Str ''3-4'', Str ''1-2''] [Str ''Yes'', Str ''No'', Str ''Yes''] = [[0, 2], [1, 0]]
   \<and> out (weekday_step (\<lambda>t. Inr 0.05) \<lparr>df = sample_interaction, out = [], raised = None\<rparr>) =
       [Subheader ''Impact of Screentime on Social Interaction (Weekday)'',
        Write [AStr ''p-value is: '', ANum (Some 0.05)],
        Write [AStr ''There is no significant association between average weekday screentime and social interaction.'']]
   \<and> out (weekday_step (\<lambda>t. Inr 0.04) \<lparr>df = sample_interaction, out = [], raised = None\<rparr>) =
       [Subheader ''Impact of Screentime on Social Interaction (Weekday)'',
        Write [AStr ''p-value is: '', ANum (Some 0.04)],
        Write [AStr ''There is a significant association between average weekday screentime and social interaction.'']]"
proof -
  let ?s = "\<lparr>df = sample_interaction, out = [], raised = None\<rparr>"
  let ?a = "[Str ''1-2'', Str ''3-4'', Str ''1-2'']"
  let ?b = "[Str ''Yes'', Str ''No'', Str ''Yes'']"
  have b: "column (df ?s) ''Interaction_Affects'' = Some ?b"
    by (simp add: column_def sample_interaction_def)
  have a: "column (df ?s) ''ST_Weekday'' = Some ?a"
    by (simp add: column_def sample_interaction_def)
  have lab: "labels ?a = [Str ''1-2'', Str ''3-4'']" "labels ?b = [Str ''No'', Str ''Yes'']"
    by (simp_all add: labels_def cell_key_def)
  note T = association_tests [OF b]
  have c: "crosstab ?a ?b = [[0, 2], [1, 0]]"
    using T [of "\<lambda>t. Inr 1", THEN conjunct2, THEN conjunct2, rule_format, of ?a] lab by simp
  have w1: "out (weekday_step (\<lambda>t. Inr 0.05) ?s) =
       [Subheader ''Impact of Screentime on Social Interaction (Weekday)'',
        Write [AStr ''p-value is: '', ANum (Some 0.05)],
        Write [AStr ''There is no significant association between average weekday screentime and social interaction.'']]"
    using T [of "\<lambda>t. Inr 0.05", THEN conjunct1, rule_format, of ?a "0.05"] a by simp
  have w2: "out (weekday_step (\<lambda>t. Inr 0.04) ?s) =
       [Subheader ''Impact of Screentime on Social Interaction (Weekday)'',
        Write [AStr ''p-value is: '', ANum (Some 0.04)],
        Write [AStr ''There is a significant association between average weekday screentime and social interaction.'']]"
    using T [of "\<lambda>t. Inr 0.04", THEN conjunct1, rule_format, of ?a "0.04"] a by simp
  from a b c w1 w2 show ?thesis
    by simp
qed

section \<open>Renaming when a survey question is missing\<close>

text \<open>
  Claim C6 says that when an expected long-form header is absent, later steps that test
  for the short name treat the column as absent and skip. The rename only maps long
  names to short ones; a file whose header already is the short name keeps it, and the
  steps that test for it run. Below, the long-form weekday sleep question is absent from
  the file, yet the loaded table has \<open>Ave_Weekday_Sleep\<close> and the filtered sub-report
  is produced.
\<close>

theorem rename_absent_header_counterexample:
  "(''On average, how many hours of sleep do you get on a typical weekday night?'', ''Ave_Weekday_Sleep'')
      \<in> set column_names
   \<and> ''On average, how many hours of sleep do you get on a typical weekday night?''
      \<notin> set (columns sample_prenamed_csv)
   \<and> load_data (Inr sample_prenamed_csv) = Inr sample_sleep_only
   \<and> has_column ''Ave_Weekday_Sleep'' sample_sleep_only
   \<and> out (less_sleep_step \<lparr>df = sample_sleep_only, out = [], raised = None\<rparr>) =
       [Subheader ''Respondents with Less than 6 Hours of Weekday Sleep'',
        Write [AFrame [(''Ave_Weekday_Sleep'', [Num 5])]],
        Write [AStr ''Health issues, eyewear use, and social interaction of such respondents''],
        Write [AStr ''One or more of the columns 'Health_Effects', 'Eyewear_User', 'Interaction_Affects' do not exist in the DataFrame.''],
        Subheader ''Impact of Sleep Time on Health Issues'',
        Write [AStr ''Column 'Health_Effects' does not exist in the DataFrame.'']]"
proof -
  have "(''On average, how many hours of sleep do you get on a typical weekday night?'', ''Ave_Weekday_Sleep'')
      \<in> set column_names"
    by (simp add: column_names_def)
  moreover have "''On average, how many hours of sleep do you get on a typical weekday night?''
      \<notin> set (columns sample_prenamed_csv)"
    by (simp add: columns_def sample_prenamed_csv_def)
  moreover have "has_column ''Ave_Weekday_Sleep'' sample_sleep_only"
    by (simp add: has_column_def columns_def sample_sleep_only_def)
  moreover have "out (less_sleep_step \<lparr>df = sample_sleep_only, out = [], raised = None\<rparr>) =
       [Subheader ''Respondents with Less than 6 Hours of Weekday Sleep'',
        Write [AFrame [(''Ave_Weekday_Sleep'', [Num 5])]],
        Write [AStr ''Health issues, eyewear use, and social interaction of such respondents''],
        Write [AStr ''One or more of the columns 'Health_Effects', 'Eyewear_User', 'Interaction_Affects' do not exist in the DataFrame.''],
        Subheader ''Impact of Sleep Time on Health Issues'',
        Write [AStr ''Column 'Health_Effects' does not exist in the DataFrame.'']]"
    by (simp add: less_sleep_step_def Let_def column_def sample_sleep_only_def series_lt_def
        is_numeric_def select_rows_def head_def project_def)
  ultimately show ?thesis
    using sample_prenamed_loaded by simp
qed

text \<open>
  Claim C6 as amended. For every input table and every entry (long, short) of the rename
  mapping (it has fifteen entries) whose long-form header is absent from the table: the
  rename is no error and leaves every column whose name is not a key of the mapping as it
  was, name and cells. Provided the short name is not itself a header of the input, the
  loaded table has no column of the short name, so every guard that tests for it takes
  its \<^verbatim>\<open>else\<close> branch: a step guarded on that name at top level (outlier, grouped
  mean, filtered sub-report, the two association tests) writes its fixed text and is
  skipped; the guards nested in the filtered sub-report (the projection, on
  \<open>Health_Effects\<close>, \<open>Eyewear_User\<close> and \<open>Interaction_Affects\<close>, and the scatter
  plot, on \<open>Health_Effects\<close>) write their fixed texts whenever the sub-report itself
  runs, that is, when \<open>Ave_Weekday_Sleep\<close> is present and numeric.
\<close>

theorem rename_absent_header:
  assumes "(long, short) \<in> set column_names" and "long \<notin> set (columns t0)"
  shows "length column_names = 15
       \<and> length (rename_columns column_names t0) = length t0
       \<and> (\<forall>i < length t0. fst (t0 ! i) \<notin> fst ` set column_names \<longrightarrow>
             rename_columns column_names t0 ! i = t0 ! i)
       \<and> (short \<notin> set (columns t0) \<longrightarrow>
            (\<forall>t. load_data (Inr t0) = Inr t \<longrightarrow>
               \<not> has_column short t
               \<and> (\<forall>s. df s = t \<longrightarrow>
                    (short = ''Ave_Weekday_Sleep'' \<longrightarrow>
                       last (out (outlier_step s)) =
                         Write [AStr ''Column 'Ave_Weekday_Sleep' does not exist in the DataFrame.'']
                       \<and> last (out (less_sleep_step s)) =
                         Write [AStr ''Column 'Ave_Weekday_Sleep' does not exist in the DataFrame.''])
                  \<and> (short = ''Age'' \<or> short = ''Ave_Weekday_Sleep'' \<longrightarrow>
                       last (out (age_group_step s)) =
                         Write [AStr ''Columns 'Age' and/or 'Ave_Weekday_Sleep' do not exist in the DataFrame.''])
                  \<and> (short = ''ST_Weekday'' \<or> short = ''Interaction_Affects'' \<longrightarrow>
                       last (out (weekday_step chi2_p s)) =
                         Write [AStr ''Columns 'ST_Weekday' and/or 'Interaction_Affects' do not exist in the DataFrame.''])
                  \<and> (short = ''ST_Weekend'' \<or> short = ''Interaction_Affects'' \<longrightarrow>
                       last (out (weekend_step chi2_p s)) =
                         Write [AStr ''Columns 'ST_Weekend' and/or 'Interaction_Affects' do not exist in the DataFrame.''])
                  \<and> (\<forall>c. (short = ''Health_Effects'' \<or> short = ''Eyewear_User''
                            \<or> short = ''Interaction_Affects'')
                          \<and> column t ''Ave_Weekday_Sleep'' = Some c \<and> is_numeric c \<longrightarrow>
                       drop (length (out s)) (out (less_sleep_step s)) ! 3 =
                         Write [AStr ''One or more of the columns 'Health_Effects', 'Eyewear_User', 'Interaction_Affects' do not exist in the DataFrame.''])
                  \<and> (\<forall>c. short = ''Health_Effects''
                          \<and> column t ''Ave_Weekday_Sleep'' = Some c \<and> is_numeric c \<longrightarrow>
                       last (out (less_sleep_step s)) =
                         Write [AStr ''Column 'Health_Effects' does not exist in the DataFrame.'']))))"
proof -
  have n: "length column_names = 15"
    by (simp add: column_names_def)
  have len: "length (rename_columns column_names t0) = length t0"
    by (simp add: rename_columns_def)
  have same: "rename_columns column_names t0 ! i = t0 ! i"
    if "i < length t0" and "fst (t0 ! i) \<notin> fst ` set column_names" for i
    using that by (cases "t0 ! i") (simp add: rename_columns_def rename_label_unmapped)
  have absent: "\<not> has_column short t
      \<and> (\<forall>s. df s = t \<longrightarrow>
           (short = ''Ave_Weekday_Sleep'' \<longrightarrow>
              last (out (outlier_step s)) =
                Write [AStr ''Column 'Ave_Weekday_Sleep' does not exist in the DataFrame.'']
              \<and> last (out (less_sleep_step s)) =
                Write [AStr ''Column 'Ave_Weekday_Sleep' does not exist in the DataFrame.''])
         \<and> (short = ''Age'' \<or> short = ''Ave_Weekday_Sleep'' \<longrightarrow>
              last (out (age_group_step s)) =
                Write [AStr ''Columns 'Age' and/or 'Ave_Weekday_Sleep' do not exist in the DataFrame.''])
         \<and> (short = ''ST_Weekday'' \<or> short = ''Interaction_Affects'' \<longrightarrow>
              last (out (weekday_step chi2_p s)) =
                Write [AStr ''Columns 'ST_Weekday' and/or 'Interaction_Affects' do not exist in the DataFrame.''])
         \<and> (short = ''ST_Weekend'' \<or> short = ''Interaction_Affects'' \<longrightarrow>
              last (out (weekend_step chi2_p s)) =
                Write [AStr ''Columns 'ST_Weekend' and/or 'Interaction_Affects' do not exist in the DataFrame.''])
         \<and> (\<forall>c. (short = ''Health_Effects'' \<or> short = ''Eyewear_User''
                   \<or> short = ''Interaction_Affects'')
                 \<and> column t ''Ave_Weekday_Sleep'' = Some c \<and> is_numeric c \<longrightarrow>
              drop (length (out s)) (out (less_sleep_step s)) ! 3 =
                Write [AStr ''One or more of the columns 'Health_Effects', 'Eyewear_User', 'Interaction_Affects' do not exist in the DataFrame.''])
         \<and> (\<forall>c. short = ''Health_Effects''
                 \<and> column t ''Ave_Weekday_Sleep'' = Some c \<and> is_numeric c \<longrightarrow>
              last (out (less_sleep_step s)) =
                Write [AStr ''Column 'Health_Effects' does not exist in the DataFrame.'']))"
    if s: "short \<notin> set (columns t0)" and l: "load_data (Inr t0) = Inr t" for t
  proof -
    have t: "t = replace_nan (rename_columns column_names (filter (\<lambda>(m, c). m \<noteq> ''Timestamp'') t0))"
      using load_data_Inr(2) [OF l] .
    have sub: "set (columns (filter (\<lambda>(m, c). m \<noteq> ''Timestamp'') t0)) \<subseteq> set (columns t0)"
      by (auto simp: columns_def)
    have "short \<notin> set (columns t)"
    proof
      assume "short \<in> set (columns t)"
      then obtain n where n: "n \<in> set (columns (filter (\<lambda>(m, c). m \<noteq> ''Timestamp'') t0))"
        and r: "rename_label column_names n = short"
        unfolding t by auto
      from rename_label_source [OF assms(1) r] have "n = long \<or> n = short" .
      with n sub assms(2) s show False
        by blast
    qed
    then have none: "column t short = None"
      using has_column_iff [of short t] by (simp add: has_column_def)
    show ?thesis
    proof (intro conjI allI impI)
      show "\<not> has_column short t"
        using none has_column_iff by blast
    next
      fix s :: state assume "df s = t" "short = ''Ave_Weekday_Sleep''"
      then show "last (out (outlier_step s)) =
          Write [AStr ''Column 'Ave_Weekday_Sleep' does not exist in the DataFrame.'']"
        using none by (simp add: outlier_step_absent)
    next
      fix s :: state assume "df s = t" "short = ''Ave_Weekday_Sleep''"
      then show "last (out (less_sleep_step s)) =
          Write [AStr ''Column 'Ave_Weekday_Sleep' does not exist in the DataFrame.'']"
        using none by (simp add: less_sleep_step_absent)
    next
      fix s :: state assume "df s = t" "short = ''Age'' \<or> short = ''Ave_Weekday_Sleep''"
      then have "column (df s) ''Age'' = None \<or> column (df s) ''Ave_Weekday_Sleep'' = None"
        using none by auto
      then show "last (out (age_group_step s)) =
          Write [AStr ''Columns 'Age' and/or 'Ave_Weekday_Sleep' do not exist in the DataFrame.'']"
        by (simp add: age_group_step_absent)
    next
      fix s :: state assume "df s = t" "short = ''ST_Weekday'' \<or> short = ''Interaction_Affects''"
      then have "column (df s) ''ST_Weekday'' = None \<or> column (df s) ''Interaction_Affects'' = None"
        using none by auto
      then show "last (out (weekday_step chi2_p s)) =
          Write [AStr ''Columns 'ST_Weekday' and/or 'Interaction_Affects' do not exist in the DataFrame.'']"
        by (simp add: weekday_step_def interaction_step_absent)
    next
      fix s :: state assume "df s = t" "short = ''ST_Weekend'' \<or> short = ''Interaction_Affects''"
      then have "column (df s) ''ST_Weekend'' = None \<or> column (df s) ''Interaction_Affects'' = None"
        using none by auto
      then show "last (out (weekend_step chi2_p s)) =
          Write [AStr ''Columns 'ST_Weekend' and/or 'Interaction_Affects' do not exist in the DataFrame.'']"
        by (simp add: weekend_step_def interaction_step_absent)
    next
      fix s :: state and c
      assume d: "df s = t"
        and h: "(short = ''Health_Effects'' \<or> short = ''Eyewear_User''
                   \<or> short = ''Interaction_Affects'')
                 \<and> column t ''Ave_Weekday_Sleep'' = Some c \<and> is_numeric c"
      from h have m: "short \<in> set [''Health_Effects'', ''Eyewear_User'', ''Interaction_Affects'']"
        by auto
      from h d have c: "column (df s) ''Ave_Weekday_Sleep'' = Some c" "is_numeric c"
        by simp_all
      from none d have "column (df s) short = None"
        by simp
      with c m show "drop (length (out s)) (out (less_sleep_step s)) ! 3 =
          Write [AStr ''One or more of the columns 'Health_Effects', 'Eyewear_User', 'Interaction_Affects' do not exist in the DataFrame.'']"
        by (rule less_sleep_step_projection_missing)
    next
      fix s :: state and c
      assume d: "df s = t"
        and h: "short = ''Health_Effects''
                 \<and> column t ''Ave_Weekday_Sleep'' = Some c \<and> is_numeric c"
      from h d have c: "column (df s) ''Ave_Weekday_Sleep'' = Some c" "is_numeric c"
        by simp_all
      from none d h have "column (df s) ''Health_Effects'' = None"
        by simp
      with c show "last (out (less_sleep_step s)) =
          Write [AStr ''Column 'Health_Effects' does not exist in the DataFrame.'']"
        by (rule less_sleep_step_scatter_missing)
    qed
  qed
  show ?thesis
  proof (intro conjI)
    show "length column_names = 15"
      by (rule n)
    show "length (rename_columns column_names t0) = length t0"
      by (rule len)
    show "\<forall>i < length t0. fst (t0 ! i) \<notin> fst ` set column_names \<longrightarrow>
             rename_columns column_names t0 ! i = t0 ! i"
      using same by simp
  qed (intro impI allI, rule absent)
qed

theorem rename_absent_header_witness:
  "(''On average, how many hours of sleep do you get on a typical weekday night?'', ''Ave_Weekday_Sleep'')
      \<in> set column_names
   \<and> ''On average, how many hours of sleep do you get on a typical weekday night?''
      \<notin> set (columns sample_short_csv)
   \<and> ''Ave_Weekday_Sleep'' \<notin> set (columns sample_short_csv)
   \<and> load_data (Inr sample_short_csv) = Inr sample_short_table
   \<and> rename_columns column_names sample_short_csv ! 0 = sample_short_csv ! 0
   \<and> \<not> has_column ''Ave_Weekday_Sleep'' sample_short_table
   \<and> last (out (outlier_step \<lparr>df = sample_short_table, out = [], raised = None\<rparr>)) =
       Write [AStr ''Column 'Ave_Weekday_Sleep' does not exist in the DataFrame.'']
   \<and> (''Do you experience any of the following health issues due to a prolonged screen time?'', ''Health_Effects'')
      \<in> set column_names
   \<and> ''Do you experience any of the following health issues due to a prolonged screen time?''
      \<notin> set (columns sample_sleep_csv)
   \<and> ''Health_Effects'' \<notin> set (columns sample_sleep_csv)
   \<and> load_data (Inr sample_sleep_csv) = Inr sample_sleep_only
   \<and> column sample_sleep_only ''Ave_Weekday_Sleep'' = Some [Num 5, Num 7]
   \<and> is_numeric [Num 5, Num 7]
   \<and> \<not> has_column ''Health_Effects'' sample_sleep_only
   \<and> out (less_sleep_step \<lparr>df = sample_sleep_only, out = [], raised = None\<rparr>) ! 3 =
       Write [AStr ''One or more of the columns 'Health_Effects', 'Eyewear_User', 'Interaction_Affects' do not exist in the DataFrame.'']
   \<and> last (out (less_sleep_step \<lparr>df = sample_sleep_only, out = [], raised = None\<rparr>)) =
       Write [AStr ''Column 'Health_Effects' does not exist in the DataFrame.'']"
proof -
  let ?long = "''On average, how many hours of sleep do you get on a typical weekday night?''"
  let ?a = "\<lparr>df = sample_short_table, out = [], raised = None\<rparr>"
  have a: "(?long, ''Ave_Weekday_Sleep'') \<in> set column_names"
    by (simp add: column_names_def)
  have b: "?long \<notin> set (columns sample_short_csv)"
    by (simp add: columns_def sample_short_csv_def)
  have c: "''Ave_Weekday_Sleep'' \<notin> set (columns sample_short_csv)"
    by (simp add: columns_def sample_short_csv_def)
  have h: "load_data (Inr sample_short_csv) = Inr sample_short_table"
    by (rule sample_short_loaded)
  have i: "(0::nat) < length sample_short_csv"
    by (simp add: sample_short_csv_def)
  have k: "fst (sample_short_csv ! 0) \<notin> fst ` set column_names"
    by (simp add: sample_short_csv_def column_names_def)
  note T = rename_absent_header [OF a b, of "\<lambda>t. Inr 1"]
  from T have "\<forall>i < length sample_short_csv.
      fst (sample_short_csv ! i) \<notin> fst ` set column_names \<longrightarrow>
        rename_columns column_names sample_short_csv ! i = sample_short_csv ! i"
    by (elim conjE)
  with i k have r: "rename_columns column_names sample_short_csv ! 0 = sample_short_csv ! 0"
    by blast
  note U = T [THEN conjunct2, THEN conjunct2, THEN conjunct2, rule_format, OF c h]
  note V = U [THEN conjunct2, rule_format, of ?a, THEN conjunct1, rule_format, THEN conjunct1]
  have v: "last (out (outlier_step ?a)) =
      Write [AStr ''Column 'Ave_Weekday_Sleep' does not exist in the DataFrame.'']"
    using V by simp
  let ?hlong = "''Do you experience any of the following health issues due to a prolonged screen time?''"
  let ?b = "\<lparr>df = sample_sleep_only, out = [], raised = None\<rparr>"
  have a2: "(?hlong, ''Health_Effects'') \<in> set column_names"
    by (simp add: column_names_def)
  have b2: "?hlong \<notin> set (columns sample_sleep_csv)"
    by (simp add: columns_def sample_sleep_csv_def)
  have c2: "''Health_Effects'' \<notin> set (columns sample_sleep_csv)"
    by (simp add: columns_def sample_sleep_csv_def)
  have h2: "load_data (Inr sample_sleep_csv) = Inr sample_sleep_only"
    by (rule sample_sleep_loaded)
  have sl: "column sample_sleep_only ''Ave_Weekday_Sleep'' = Some [Num 5, Num 7]"
    by (simp add: column_def sample_sleep_only_def)
  have nm: "is_numeric [Num 5, Num 7]"
    by (simp add: is_numeric_def)
  note T2 = rename_absent_header [OF a2 b2, of "\<lambda>t. Inr 1"]
  note U2 = T2 [THEN conjunct2, THEN conjunct2, THEN conjunct2, rule_format, OF c2 h2]
  note W = U2 [THEN conjunct2, rule_format, of ?b, THEN conjunct2, THEN conjunct2,
      THEN conjunct2, THEN conjunct2]
  have p: "out (less_sleep_step ?b) ! 3 =
      Write [AStr ''One or more of the columns 'Health_Effects', 'Eyewear_User', 'Interaction_Affects' do not exist in the DataFrame.'']"
    using W [THEN conjunct1, rule_format, of "[Num 5, Num 7]"] sl nm by simp
  have q: "last (out (less_sleep_step ?b)) =
      Write [AStr ''Column 'Health_Effects' does not exist in the DataFrame.'']"
    using W [THEN conjunct2, rule_format, of "[Num 5, Num 7]"] sl nm by simp
  from a b c h r U [THEN conjunct1] v a2 b2 c2 h2 sl nm U2 [THEN conjunct1] p q show ?thesis
    by (intro conjI)
qed

section \<open>A sleep column that holds a string ends the run\<close>

text \<open>
  Claim C7. If the column \<open>Ave_Weekday_Sleep\<close> is not numeric (it holds a string, as
  when numbers are mixed with the \<open>''0''\<close> that replaced a missing value), the
  arithmetic of the outlier step fails with a type error that nothing catches. The step
  raises \<^verbatim>\<open>TypeError\<close> right after its first boxplot: it writes no statistic and no
  fallback text, leaves the table with its cells (the string included, never turned into
  a number), and none of the later steps runs. In a whole run that reaches the step (the
  heatmap of line 73 needs a numeric column somewhere in the table) this is the error
  the run ends with.
\<close>

theorem outlier_type_error_is_fatal:
  assumes "column t ''Ave_Weekday_Sleep'' = Some c" and "Str x \<in> set c"
  shows "(\<forall>s. df s = t \<longrightarrow>
            outlier_step s =
              s\<lparr>out := out s @
                 [Subheader ''Outlier Analysis - Weekday Sleep'',
                  Write [AStr ''Columns in DataFrame:'', ANames (columns t)],
                  Pyplot (Boxplot c)],
                raised := Some TypeError\<rparr>
          \<and> run_steps [age_group_step, less_sleep_step, weekday_step chi2_p, weekend_step chi2_p]
                (outlier_step s) = outlier_step s)
       \<and> (\<forall>csv. load_data csv = Inr t \<and> select_numeric t \<noteq> [] \<longrightarrow>
            raised (script chi2_p show_raw csv) = Some TypeError
          \<and> last (out (script chi2_p show_raw csv)) = Pyplot (Boxplot c)
          \<and> df (script chi2_p show_raw csv) = t)"
proof (intro conjI allI impI)
  have nn: "\<not> is_numeric c"
    using assms(2) not_numeric_iff by blast
  have step: "outlier_step s =
      s\<lparr>out := out s @
         [Subheader ''Outlier Analysis - Weekday Sleep'',
          Write [AStr ''Columns in DataFrame:'', ANames (columns t)],
          Pyplot (Boxplot c)],
        raised := Some TypeError\<rparr>"
    if "df s = t" for s :: state
    using outlier_step_not_numeric [of s c] that assms(1) nn by simp
  {
    fix s :: state
    assume d: "df s = t"
    show "outlier_step s =
      s\<lparr>out := out s @
         [Subheader ''Outlier Analysis - Weekday Sleep'',
          Write [AStr ''Columns in DataFrame:'', ANames (columns t)],
          Pyplot (Boxplot c)],
        raised := Some TypeError\<rparr>"
      using d by (rule step)
    have "raised (outlier_step s) = Some TypeError"
      by (simp add: step [OF d])
    then show "run_steps [age_group_step, less_sleep_step, weekday_step chi2_p, weekend_step chi2_p]
        (outlier_step s) = outlier_step s"
      by (rule run_steps_raised)
  }
  fix csv
  assume h: "load_data csv = Inr t \<and> select_numeric t \<noteq> []"
  let ?init = "(header_step \<lparr>df = [], out = [], raised = None\<rparr>)\<lparr>df := t\<rparr>"
  let ?pre = "correlation_step (null_values_step (basic_information_step
       (data_information_step (raw_data_step show_raw ?init))))"
  have "raised ?init = None" and "column (df ?init) ''Ave_Weekday_Sleep'' = Some c"
    and "select_numeric (df ?init) \<noteq> []"
    using assms(1) h by (simp_all add: header_step_def)
  from report_stops_at_outlier_step [OF this(1,2) nn this(3)]
  have "run_steps (report_steps chi2_p show_raw) ?init = outlier_step ?pre" .
  then have run: "script chi2_p show_raw csv = outlier_step ?pre"
    using h by (simp add: script_def Let_def)
  have "df ?pre = t"
    by simp
  then have o: "outlier_step ?pre =
      ?pre\<lparr>out := out ?pre @
         [Subheader ''Outlier Analysis - Weekday Sleep'',
          Write [AStr ''Columns in DataFrame:'', ANames (columns t)],
          Pyplot (Boxplot c)],
        raised := Some TypeError\<rparr>"
    by (rule step)
  show "raised (script chi2_p show_raw csv) = Some TypeError"
    unfolding run o by simp
  show "last (out (script chi2_p show_raw csv)) = Pyplot (Boxplot c)"
    unfolding run o by simp
  show "df (script chi2_p show_raw csv) = t"
    unfolding run o by simp
qed

theorem outlier_type_error_is_fatal_witness:
  "load_data (Inr sample_mixed_csv) = Inr sample_mixed_table
   \<and> column sample_mixed_table ''Ave_Weekday_Sleep'' = Some [Num 7, Str ''0'']
   \<and> select_numeric sample_mixed_table = [(''Ave_Weekend_Sleep'', [Num 8, Num 9])]
   \<and> outlier_step \<lparr>df = sample_mixed_table, out = [], raised = None\<rparr> =
       \<lparr>df = sample_mixed_table,
        out =
          [Subheader ''Outlier Analysis - Weekday Sleep'',
           Write [AStr ''Columns in DataFrame:'', ANames [''Ave_Weekday_Sleep'', ''Ave_Weekend_Sleep'']],
           Pyplot (Boxplot [Num 7, Str ''0''])],
        raised = Some TypeError\<rparr>
   \<and> raised (script (\<lambda>t. Inr 1) False (Inr sample_mixed_csv)) = Some TypeError
   \<and> last (out (script (\<lambda>t. Inr 1) False (Inr sample_mixed_csv))) = Pyplot (Boxplot [Num 7, Str ''0''])
   \<and> df (script (\<lambda>t. Inr 1) False (Inr sample_mixed_csv)) = sample_mixed_table"
proof -
  let ?a = "\<lparr>df = sample_mixed_table, out = [], raised = None\<rparr>"
  have h: "load_data (Inr sample_mixed_csv) = Inr sample_mixed_table"
    by (rule sample_mixed_loaded)
  have c: "column sample_mixed_table ''Ave_Weekday_Sleep'' = Some [Num 7, Str ''0'']"
    by (simp add: column_def sample_mixed_table_def)
  have x: "Str ''0'' \<in> set [Num 7, Str ''0'']"
    by simp
  have n: "select_numeric sample_mixed_table = [(''Ave_Weekend_Sleep'', [Num 8, Num 9])]"
    by (simp add: select_numeric_def sample_mixed_table_def is_numeric_def)
  have cols: "columns sample_mixed_table = [''Ave_Weekday_Sleep'', ''Ave_Weekend_Sleep'']"
    by (simp add: columns_def sample_mixed_table_def)
  note T = outlier_type_error_is_fatal [OF c x, of "\<lambda>t. Inr 1" False]
  have s: "outlier_step ?a =
       \<lparr>df = sample_mixed_table,
        out =
          [Subheader ''Outlier Analysis - Weekday Sleep'',
           Write [AStr ''Columns in DataFrame:'', ANames [''Ave_Weekday_Sleep'', ''Ave_Weekend_Sleep'']],
           Pyplot (Boxplot [Num 7, Str ''0''])],
        raised = Some TypeError\<rparr>"
    using T [THEN conjunct1, rule_format, of ?a, THEN conjunct1] cols by simp
  have r: "raised (script (\<lambda>t. Inr 1) False (Inr sample_mixed_csv)) = Some TypeError
      \<and> last (out (script (\<lambda>t. Inr 1) False (Inr sample_mixed_csv))) = Pyplot (Boxplot [Num 7, Str ''0''])
      \<and> df (script (\<lambda>t. Inr 1) False (Inr sample_mixed_csv)) = sample_mixed_table"
    using T [THEN conjunct2, rule_format, of "Inr sample_mixed_csv"] h n by simp
  from h c n s r show ?thesis
    by (intro conjI) simp_all
qed

section \<open>Mean weekday sleep by age group\<close>

text \<open>
  Claim C8. When both \<open>Age\<close> and \<open>Ave_Weekday_Sleep\<close> exist (the sleep column
  numeric), the grouped step draws one bar for every distinct \<open>Age\<close> value, its height
  the arithmetic mean of \<open>Ave_Weekday_Sleep\<close> over the rows of that value, and the bars
  are in the sort order of the \<open>Age\<close> values, not in the order of the means.
\<close>

theorem age_group_bars:
  assumes "column (df s) ''Age'' = Some a"
    and "column (df s) ''Ave_Weekday_Sleep'' = Some (map Num xs)"
    and "length a = length xs" and "NaN \<notin> set a"
  shows "\<exists>means.
           age_group_step s =
             emit (Pyplot (Bar means)) (emit (Subheader ''Average Weekday Sleep by Age Group'') s)
         \<and> sorted_wrt (<) (map (cell_key \<circ> fst) means)
         \<and> distinct (map fst means)
         \<and> set (map fst means) = set a
         \<and> (\<forall>(k, m) \<in> set means.
              m = Some (sum_list (map snd (filter (\<lambda>p. fst p = k) (zip a xs)))
                        / real (length (filter (\<lambda>p. fst p = k) (zip a xs)))))"
proof -
  from groupby_mean_numeric [OF assms(3,4)] obtain means
    where g: "groupby_mean a (map Num xs) = Inr means"
      and p: "sorted_wrt (<) (map (cell_key \<circ> fst) means)" "distinct (map fst means)"
        "set (map fst means) = set a"
        "\<forall>(k, m) \<in> set means.
            m = Some (sum_list (map snd (filter (\<lambda>p. fst p = k) (zip a xs)))
                      / real (length (filter (\<lambda>p. fst p = k) (zip a xs))))"
    by blast
  have "age_group_step s =
      emit (Pyplot (Bar means)) (emit (Subheader ''Average Weekday Sleep by Age Group'') s)"
    using assms(1,2) g by (simp add: age_group_step_def Let_def)
  with p show ?thesis
    by blast
qed

theorem age_group_bars_witness:
  "column sample_groups ''Age'' = Some [Str ''25-34'', Str ''18-24'', Str ''25-34'']
   \<and> column sample_groups ''Ave_Weekday_Sleep'' = Some (map Num [6, 8, 7])
   \<and> NaN \<notin> set [Str ''25-34'', Str ''18-24'', Str ''25-34'']
   \<and> (\<exists>means.
         age_group_step \<lparr>df = sample_groups, out = [], raised = None\<rparr> =
           emit (Pyplot (Bar means))
             (emit (Subheader ''Average Weekday Sleep by Age Group'')
               \<lparr>df = sample_groups, out = [], raised = None\<rparr>)
       \<and> sorted_wrt (<) (map (cell_key \<circ> fst) means)
       \<and> set (map fst means) = {Str ''18-24'', Str ''25-34''})
   \<and> last (out (age_group_step \<lparr>df = sample_groups, out = [], raised = None\<rparr>)) =
       Pyplot (Bar [(Str ''18-24'', Some 8), (Str ''25-34'', Some (13 / 2))])"
proof -
  let ?a = "\<lparr>df = sample_groups, out = [], raised = None\<rparr>"
  have a: "column (df ?a) ''Age'' = Some [Str ''25-34'', Str ''18-24'', Str ''25-34'']"
    by (simp add: column_def sample_groups_def)
  have c: "column (df ?a) ''Ave_Weekday_Sleep'' = Some (map Num [6, 8, 7])"
    by (simp add: column_def sample_groups_def)
  have l: "length [Str ''25-34'', Str ''18-24'', Str ''25-34''] = length [6, 8, 7 :: real]"
    by simp
  have n: "NaN \<notin> set [Str ''25-34'', Str ''18-24'', Str ''25-34'']"
    by simp
  from age_group_bars [OF a c l n] obtain means
    where "age_group_step ?a =
        emit (Pyplot (Bar means)) (emit (Subheader ''Average Weekday Sleep by Age Group'') ?a)"
      and "sorted_wrt (<) (map (cell_key \<circ> fst) means)"
      and "set (map fst means) = set [Str ''25-34'', Str ''18-24'', Str ''25-34'']"
    by blast
  then have e: "\<exists>means.
         age_group_step ?a =
           emit (Pyplot (Bar means)) (emit (Subheader ''Average Weekday Sleep by Age Group'') ?a)
       \<and> sorted_wrt (<) (map (cell_key \<circ> fst) means)
       \<and> set (map fst means) = {Str ''18-24'', Str ''25-34''}"
    by auto
  have v: "last (out (age_group_step ?a)) =
      Pyplot (Bar [(Str ''18-24'', Some 8), (Str ''25-34'', Some (13 / 2))])"
    by (simp add: age_group_step_def Let_def column_def sample_groups_def groupby_mean_def
        groups_def is_numeric_def add_value_def cell_key_def group_mean_def)
  from a c n e v show ?thesis
    by simp
qed

section \<open>The deviation behind the limits\<close>

text \<open>
  Claim C9. The standard deviation in the outlier limits is the sample standard
  deviation, with divisor \<open>n - 1\<close>, not the population one with divisor \<open>n\<close>: for
  every column of \<open>n \<ge> 2\<close> numeric values with mean \<open>\<mu>\<close>, the upper limit is
  \<open>\<mu> + 3 * sqrt (\<Sum>(v - \<mu>)\<^sup>2 / (n - 1))\<close>, the lower limit is the same distance below
  \<open>\<mu>\<close>, and these are the numbers the outlier step writes.
\<close>

theorem limits_use_sample_deviation:
  assumes "2 \<le> length xs"
  shows "upper_limit xs =
           Some (sum_list xs / real (length xs)
                 + 3 * sqrt (sum_list (map (\<lambda>v. (v - sum_list xs / real (length xs))\<^sup>2) xs)
                             / (real (length xs) - 1)))
       \<and> lower_limit xs =
           Some (sum_list xs / real (length xs)
                 - 3 * sqrt (sum_list (map (\<lambda>v. (v - sum_list xs / real (length xs))\<^sup>2) xs)
                             / (real (length xs) - 1)))
       \<and> (\<forall>s. column (df s) ''Ave_Weekday_Sleep'' = Some (map Num xs) \<longrightarrow>
             Write [AStr ''Upper limit for outliers: '', ANum (upper_limit xs)] \<in> set (out (outlier_step s))
           \<and> Write [AStr ''Lower limit for outliers: '', ANum (lower_limit xs)] \<in> set (out (outlier_step s)))"
proof -
  let ?avg = "sum_list xs / real (length xs)"
  have ne: "xs \<noteq> []" and n: "\<not> length xs \<le> 1"
    using assms by auto
  have d: "real (length xs - 1) = real (length xs) - 1"
    using assms by (simp add: of_nat_diff)
  have sq: "map (\<lambda>v. (?avg - v)\<^sup>2) xs = map (\<lambda>v. (v - ?avg)\<^sup>2) xs"
    by (simp add: power2_commute)
  have v: "var 1 xs = Some (sum_list (map (\<lambda>v. (v - ?avg)\<^sup>2) xs) / (real (length xs) - 1))"
    using n by (simp add: var_def Let_def sq d)
  have u: "upper_limit xs =
      Some (?avg + 3 * sqrt (sum_list (map (\<lambda>v. (v - ?avg)\<^sup>2) xs) / (real (length xs) - 1)))"
    using ne v by (simp add: upper_limit_def mean_def std_def)
  have l: "lower_limit xs =
      Some (?avg - 3 * sqrt (sum_list (map (\<lambda>v. (v - ?avg)\<^sup>2) xs) / (real (length xs) - 1)))"
    using ne v by (simp add: lower_limit_def mean_def std_def)
  have w: "Write [AStr ''Upper limit for outliers: '', ANum (upper_limit xs)] \<in> set (out (outlier_step s))
      \<and> Write [AStr ''Lower limit for outliers: '', ANum (lower_limit xs)] \<in> set (out (outlier_step s))"
    if "column (df s) ''Ave_Weekday_Sleep'' = Some (map Num xs)" for s
    using outlier_step_numeric_out [OF that] by simp
  from u l w show ?thesis
    by (intro conjI allI impI) simp_all
qed

theorem limits_use_sample_deviation_witness:
  "2 \<le> length [6, 7, 8 :: real]
   \<and> upper_limit [6, 7, 8] = Some 10
   \<and> lower_limit [6, 7, 8] = Some 4
   \<and> map_option (\<lambda>sd. 7 + 3 * sd) (map_option sqrt (var 0 [6, 7, 8])) \<noteq> Some 10"
proof -
  have n: "2 \<le> length [6, 7, 8 :: real]"
    by simp
  have "sqrt (2 / 3) \<noteq> 1"
    by simp
  then have p: "map_option (\<lambda>sd. 7 + 3 * sd) (map_option sqrt (var 0 [6, 7, 8])) \<noteq> Some 10"
    by (simp add: var_def Let_def power2_eq_square)
  from limits_use_sample_deviation [OF n]
  have "upper_limit [6, 7, 8] = Some 10" and "lower_limit [6, 7, 8] = Some 4"
    by (simp_all add: power2_eq_square)
  with n p show ?thesis
    by simp
qed

section \<open>Without the sleep column the table is never written\<close>

text \<open>
  Claim C10. If the column \<open>Ave_Weekday_Sleep\<close> is absent from the loaded table, the
  table is never mutated after the Loader returns: the clamp is skipped, every other step
  only reads the table, and the table at the end of the run is the table the Loader
  produced (whatever the checkbox and the chi-square routine do, and whether or not a
  step raises).
\<close>

theorem table_untouched_without_sleep_column:
  assumes "load_data csv = Inr t" and "column t ''Ave_Weekday_Sleep'' = None"
  shows "df (script chi2_p show_raw csv) = t"
proof -
  let ?init = "(header_step \<lparr>df = [], out = [], raised = None\<rparr>)\<lparr>df := t\<rparr>"
  have step: "df (f s) = t"
    if "f \<in> set (report_steps chi2_p show_raw)" and "df s = t" for f s
  proof -
    have "df (outlier_step s) = t"
      using assms(2) that(2) by (simp add: outlier_step_absent)
    with that show ?thesis
      by (auto simp: report_steps_def)
  qed
  have "df (run_steps (report_steps chi2_p show_raw) ?init) = t"
    by (rule run_steps_preserves [where P = "\<lambda>s. df s = t"]) (simp_all add: step)
  then show ?thesis
    using assms(1) by (simp add: script_def Let_def)
qed

theorem table_untouched_without_sleep_column_witness:
  "load_data (Inr sample_short_csv) = Inr sample_short_table
   \<and> column sample_short_table ''Ave_Weekday_Sleep'' = None
   \<and> df (script (\<lambda>t. Inr 1) True (Inr sample_short_csv)) = sample_short_table"
proof -
  have h: "load_data (Inr sample_short_csv) = Inr sample_short_table"
    by (rule sample_short_loaded)
  have n: "column sample_short_table ''Ave_Weekday_Sleep'' = None"
    by (simp add: column_def sample_short_table_def)
  show ?thesis
    using h n table_untouched_without_sleep_column [OF h n, of "\<lambda>t. Inr 1" True] by simp
qed

end
